theory Spec2Isabelle
  imports Main "HOL-Library.Sublist"
begin

text \<open>
  A model of the EduAgent AI Tutor backend: the Message and Conversation entities, the
  GeminiService with its retry loop, the ChatUseCase that asks both personas, and the
  parser of the combined response in agentLogic.js. Exceptions are values of a sum type,
  mutation is state passing, and everything outside the repository (the Gemini SDK, the
  injected service, the clock, the formatting and parsing of dates) is a parameter.
\<close>

section \<open>Strings\<close>

text \<open>
  A JavaScript string is modelled as a \<^typ>\<open>string\<close>: every \<^typ>\<open>char\<close> stands for one
  UTF-16 code unit below 256, and \<^const>\<open>length\<close> is the \<^verbatim>\<open>.length\<close> of the source.
  \<^verbatim>\<open>String.prototype.trim\<close> removes WhiteSpace and LineTerminator code units from both
  ends; below 256 these are TAB, LF, VT, FF, CR, SP and NBSP.
\<close>

definition isWhiteSpace :: "char \<Rightarrow> bool" where
  "isWhiteSpace c \<longleftrightarrow>
     c \<in> set [CHR 0x09, CHR 0x0A, CHR 0x0B, CHR 0x0C, CHR 0x0D, CHR 0x20, CHR 0xA0]"

definition trim :: "string \<Rightarrow> string" where
  "trim s = rev (dropWhile isWhiteSpace (rev (dropWhile isWhiteSpace s)))"

text \<open>
  \<^verbatim>\<open>String.prototype.toLowerCase\<close> on code units below 256: the ASCII capitals and the
  Latin-1 capitals (0xC0 to 0xDE without the multiplication sign 0xD7) move up by 32,
  which sets bit 5, clear in all of them.
\<close>

definition toLowerCaseChar :: "char \<Rightarrow> char" where
  "toLowerCaseChar c =
     (let n = of_char c :: nat in
      if (65 \<le> n \<and> n \<le> 90) \<or> (192 \<le> n \<and> n \<le> 222 \<and> n \<noteq> 215)
      then (case c of Char b0 b1 b2 b3 b4 b5 b6 b7 \<Rightarrow> Char b0 b1 b2 b3 b4 True b6 b7)
      else c)"

definition toLowerCase :: "string \<Rightarrow> string" where
  "toLowerCase s = map toLowerCaseChar s"

text \<open>\<^verbatim>\<open>s.includes(p)\<close>: the pattern occurs as a contiguous run of the string.\<close>

definition str_includes :: "string \<Rightarrow> string \<Rightarrow> bool" where
  "str_includes s p \<longleftrightarrow> sublist p s"

section \<open>Shared types and errors\<close>

datatype AgentPersona = EXPLAINER | EXAMPLE_PROVIDER

datatype MessageRole = USER | ASSISTANT | SYSTEM

text \<open>The string value of a persona, as the template literals of the source print it.\<close>

fun persona_string :: "AgentPersona \<Rightarrow> string" where
  "persona_string EXPLAINER = ''explainer''"
| "persona_string EXAMPLE_PROVIDER = ''example_provider''"

text \<open>
  Instances of \<^verbatim>\<open>Error\<close>. The built-in classes carry a message; \<^verbatim>\<open>GeminiApiError\<close>
  carries its message and the optional \<^verbatim>\<open>cause\<close>. A thrown value is an instance of
  \<^verbatim>\<open>Error\<close> or anything else, the latter kept as its \<^verbatim>\<open>String(value)\<close>.
\<close>

datatype js_error =
    Error string
  | TypeError string
  | RangeError string
  | ValidationError string
  | GeminiApiError string "js_error option"

datatype thrown = ThrownError js_error | ThrownValue string

fun message_of :: "js_error \<Rightarrow> string" where
  "message_of (Error m) = m"
| "message_of (TypeError m) = m"
| "message_of (RangeError m) = m"
| "message_of (ValidationError m) = m"
| "message_of (GeminiApiError m c) = m"

text \<open>The constructor of \<^verbatim>\<open>GeminiApiError\<close> prefixes the message.\<close>

definition new_GeminiApiError :: "string \<Rightarrow> js_error option \<Rightarrow> js_error" where
  "new_GeminiApiError m originalError = GeminiApiError (''Gemini API Error: '' @ m) originalError"

text \<open>\<^verbatim>\<open>error instanceof Error ? error : new Error(String(error))\<close>\<close>

fun asError :: "thrown \<Rightarrow> js_error" where
  "asError (ThrownError e) = e"
| "asError (ThrownValue s) = Error s"

fun isValidationError :: "js_error \<Rightarrow> bool" where
  "isValidationError (ValidationError m) = True"
| "isValidationError e = False"

fun isGeminiApiError :: "js_error \<Rightarrow> bool" where
  "isGeminiApiError (GeminiApiError m c) = True"
| "isGeminiApiError e = False"

section \<open>Message entity\<close>

text \<open>
  A \<^verbatim>\<open>Date\<close> holds a time value in milliseconds, or is an Invalid Date (\<open>None\<close>).
  \<^verbatim>\<open>toISOString\<close> and the parsing \<^verbatim>\<open>new Date(string)\<close> belong to the runtime and are
  parameters of the model; \<^verbatim>\<open>toISOString\<close> of an Invalid Date throws a RangeError.
\<close>

type_synonym date = "int option"

record runtime =
  toISOString :: "int \<Rightarrow> string"
  parseDate :: "string \<Rightarrow> date"

record Message =
  role :: MessageRole
  content :: string
  timestamp :: date
  agentPersona :: "AgentPersona option"

definition validateContent :: "string \<Rightarrow> js_error + unit" where
  "validateContent c =
     (if c = [] then Inl (Error ''Message content must be a non-empty string'')
      else let trimmed = trim c in
        if length trimmed = 0 then Inl (Error ''Message content cannot be empty'')
        else let maxLength = 10000 in
          if length trimmed > maxLength
          then Inl (Error ''Message content exceeds maximum length of 10000 characters'')
          else Inr ())"

definition new_Message ::
  "MessageRole \<Rightarrow> string \<Rightarrow> date \<Rightarrow> AgentPersona option \<Rightarrow> js_error + Message" where
  "new_Message r c ts p =
     (case validateContent c of
        Inl e \<Rightarrow> Inl e
      | Inr u \<Rightarrow> Inr \<lparr>role = r, content = trim c, timestamp = ts, agentPersona = p\<rparr>)"

text \<open>The plain object of \<^verbatim>\<open>toJSON\<close>, and the one \<^verbatim>\<open>fromJSON\<close> accepts.\<close>

datatype json_timestamp = TimestampString string | TimestampDate date

record MessageJSON =
  json_role :: MessageRole
  json_content :: string
  json_timestamp :: "json_timestamp option"
  json_agentPersona :: "AgentPersona option"

definition toJSON :: "runtime \<Rightarrow> Message \<Rightarrow> js_error + MessageJSON" where
  "toJSON rt m =
     (case timestamp m of
        None \<Rightarrow> Inl (RangeError ''Invalid time value'')
      | Some ms \<Rightarrow>
          Inr \<lparr>json_role = role m, json_content = content m,
               json_timestamp = Some (TimestampString (toISOString rt ms)),
               json_agentPersona = agentPersona m\<rparr>)"

text \<open>
  \<open>now\<close> is the reading of the clock that \<^verbatim>\<open>new Date()\<close> returns. An empty timestamp
  string is falsy, so it takes the clock as an absent timestamp does.
\<close>

definition fromJSON :: "runtime \<Rightarrow> int \<Rightarrow> MessageJSON \<Rightarrow> js_error + Message" where
  "fromJSON rt now d =
     (let ts = (case json_timestamp d of
                  None \<Rightarrow> Some now
                | Some (TimestampString s) \<Rightarrow> (if s = [] then Some now else parseDate rt s)
                | Some (TimestampDate t) \<Rightarrow> t)
      in new_Message (json_role d) (json_content d) ts (json_agentPersona d))"

section \<open>Conversation entity\<close>

record Conversation =
  messages :: "Message list"
  subject :: "string option"
  topic :: "string option"
  userId :: "string option"
  createdAt :: date
  updatedAt :: date

definition new_Conversation ::
  "int \<Rightarrow> Message list \<Rightarrow> string option \<Rightarrow> string option \<Rightarrow> string option \<Rightarrow> Conversation" where
  "new_Conversation now ms s t u =
     \<lparr>messages = ms, subject = s, topic = t, userId = u,
      createdAt = Some now, updatedAt = Some now\<rparr>"

definition validateMessageAddition :: "Conversation \<Rightarrow> Message \<Rightarrow> js_error + unit" where
  "validateMessageAddition c m =
     (let maxHistory = 100 in
      if length (messages c) \<ge> maxHistory
      then Inl (Error ''Conversation history limit of 100 messages reached'')
      else Inr ())"

text \<open>
  \<^verbatim>\<open>addMessage\<close> mutates the conversation, so the model returns the conversation as it
  is afterwards together with the outcome: a throw leaves it as it was.
\<close>

definition addMessage ::
  "int \<Rightarrow> Message \<Rightarrow> Conversation \<Rightarrow> (js_error + unit) \<times> Conversation" where
  "addMessage now m c =
     (case validateMessageAddition c m of
        Inl e \<Rightarrow> (Inl e, c)
      | Inr u \<Rightarrow> (Inr (), c\<lparr>messages := messages c @ [m], updatedAt := Some now\<rparr>))"

text \<open>
  \<^verbatim>\<open>this._messages.slice(-count)\<close> for an integer \<open>count\<close>: a negative start counts from
  the end (clamped at the beginning), a start of zero or more counts from the beginning.
\<close>

definition slice_from :: "int \<Rightarrow> 'a list \<Rightarrow> 'a list" where
  "slice_from start xs =
     (if start < 0 then drop (nat (max (int (length xs) + start) 0)) xs
      else drop (nat start) xs)"

definition getRecentMessages :: "Conversation \<Rightarrow> int \<Rightarrow> Message list" where
  "getRecentMessages c count = slice_from (- count) (messages c)"

record GeminiContent =
  gemini_role :: string
  parts :: "string list"

definition getGeminiFormat :: "Conversation \<Rightarrow> GeminiContent list" where
  "getGeminiFormat c =
     map (\<lambda>msg. \<lparr>gemini_role = (if role msg = USER then ''user'' else ''model''),
                 parts = [content msg]\<rparr>) (messages c)"

section \<open>GeminiService\<close>

text \<open>
  The Gemini SDK is a parameter of the model. An attempt either yields the text of the
  response or throws; the attempt number is passed along, so that the SDK may answer
  each attempt differently.
\<close>

record sdk =
  sendMessage :: "nat \<Rightarrow> GeminiContent list \<Rightarrow> string \<Rightarrow> thrown + string"
  generateContent :: "nat \<Rightarrow> string \<Rightarrow> thrown + string"

definition maxRetries :: nat where
  "maxRetries = 3"

definition retryDelay :: nat where
  "retryDelay = 1000"

definition nonRetryablePatterns :: "string list" where
  "nonRetryablePatterns =
     [''api key'', ''authentication'', ''unauthorized'', ''quota'', ''billing'', ''invalid'']"

fun isNonRetryableError :: "thrown \<Rightarrow> bool" where
  "isNonRetryableError (ThrownValue v) = False"
| "isNonRetryableError (ThrownError e) =
     (let message = toLowerCase (message_of e)
      in list_ex (\<lambda>pattern. str_includes message pattern) nonRetryablePatterns)"

text \<open>The body of the \<^verbatim>\<open>try\<close> block: a chat session when there is history.\<close>

definition callModel :: "sdk \<Rightarrow> nat \<Rightarrow> string \<Rightarrow> GeminiContent list \<Rightarrow> thrown + string" where
  "callModel m attempt prompt history =
     (if length history > 0 then sendMessage m attempt history prompt
      else generateContent m attempt prompt)"

text \<open>What one call of \<^verbatim>\<open>generateResponse\<close> does outside: calls of the SDK and delays.\<close>

datatype event = Call nat | Delay nat

function generateResponse_loop ::
  "sdk \<Rightarrow> string \<Rightarrow> GeminiContent list \<Rightarrow> nat \<Rightarrow> js_error option \<Rightarrow> event list
     \<Rightarrow> (js_error + string) \<times> event list" where
  "generateResponse_loop m prompt history attempt lastError trace =
     (if attempt \<le> maxRetries then
        (case callModel m attempt prompt history of
           Inr text \<Rightarrow> (Inr text, trace @ [Call attempt])
         | Inl error \<Rightarrow>
             (let lastError' = asError error in
              if isNonRetryableError error
              then (Inl (new_GeminiApiError
                           (''Non-retryable error: '' @ message_of lastError')
                           (Some lastError')),
                    trace @ [Call attempt])
              else generateResponse_loop m prompt history (attempt + 1) (Some lastError')
                     (trace @ [Call attempt] @
                        (if attempt < maxRetries then [Delay (retryDelay * attempt)] else []))))
      else
        (Inl (new_GeminiApiError
               (''Failed to generate response after 3 attempts: '' @
                  (case lastError of
                     None \<Rightarrow> ''Unknown error''
                   | Some e \<Rightarrow> if message_of e = [] then ''Unknown error'' else message_of e))
               lastError),
         trace))"
  by pat_completeness auto
termination
  by (relation "measure (\<lambda>(m, p, h, attempt, e, t). maxRetries + 1 - attempt)") auto

declare generateResponse_loop.simps [simp del]

definition generateResponse ::
  "sdk \<Rightarrow> string \<Rightarrow> GeminiContent list \<Rightarrow> (js_error + string) \<times> event list" where
  "generateResponse m prompt history = generateResponse_loop m prompt history 1 None []"

section \<open>ChatUseCase\<close>

record ChatRequest =
  request_message :: string
  conversationHistory :: "MessageJSON list option"
  request_subject :: "string option"
  request_topic :: "string option"

record ChatResponse =
  response_message :: string
  response_agentPersona :: AgentPersona
  response_timestamp :: date

text \<open>
  The injected \<^verbatim>\<open>IGeminiService\<close>: the outcome of \<^verbatim>\<open>generateResponse(prompt, history)\<close>,
  which may depend on how many calls were made before. Every call is logged with its
  arguments.
\<close>

type_synonym gemini_service = "nat \<Rightarrow> string \<Rightarrow> GeminiContent list \<Rightarrow> thrown + string"

type_synonym call_log = "(string \<times> GeminiContent list) list"

text \<open>
  The request is typed, so the checks \<^verbatim>\<open>!request\<close> and \<^verbatim>\<open>typeof\<close> cannot fire, apart
  from the empty message, which is falsy.
\<close>

definition validateRequest :: "ChatRequest \<Rightarrow> js_error + unit" where
  "validateRequest request =
     (if request_message request = []
      then Inl (ValidationError ''Invalid request: message is required and must be a string'')
      else let trimmedMessage = trim (request_message request) in
        if length trimmedMessage = 0
        then Inl (ValidationError ''Invalid request: message cannot be empty'')
        else if length trimmedMessage > 5000
        then Inl (ValidationError
                    ''Invalid request: message exceeds maximum length of 5000 characters'')
        else Inr ())"

text \<open>\<^verbatim>\<open>conversationHistory.map(msg => Message.fromJSON(...))\<close>: the first throw ends the map.\<close>

fun mapFromJSON :: "runtime \<Rightarrow> int \<Rightarrow> MessageJSON list \<Rightarrow> js_error + Message list" where
  "mapFromJSON rt now [] = Inr []"
| "mapFromJSON rt now (d # ds) =
     (case fromJSON rt now d of
        Inl e \<Rightarrow> Inl e
      | Inr m \<Rightarrow> (case mapFromJSON rt now ds of Inl e \<Rightarrow> Inl e | Inr ms \<Rightarrow> Inr (m # ms)))"

definition createConversation :: "runtime \<Rightarrow> int \<Rightarrow> ChatRequest \<Rightarrow> js_error + Conversation" where
  "createConversation rt now request =
     (case (case conversationHistory request of
              Some h \<Rightarrow> mapFromJSON rt now h
            | None \<Rightarrow> Inr []) of
        Inl e \<Rightarrow> Inl e
      | Inr ms \<Rightarrow> Inr (new_Conversation now ms (request_subject request) (request_topic request) None))"

definition explainerSystemPrompt :: string where
  "explainerSystemPrompt = ''You are an expert teacher who explains concepts clearly and concisely. Focus on breaking down complex ideas into understandable parts.''"

definition exampleSystemPrompt :: string where
  "exampleSystemPrompt = ''You are a practical teacher who provides real-world examples and applications. Focus on giving concrete examples that illustrate the concepts being discussed.''"

definition agentPrompt :: "string \<Rightarrow> Message \<Rightarrow> string" where
  "agentPrompt systemPrompt lastMessage =
     systemPrompt @ [CHR 0x0A, CHR 0x0A] @ ''User'' @ [CHR 0x27] @ ''s question: '' @
       content lastMessage"

text \<open>
  \<^verbatim>\<open>generateAgentResponse\<close> returns the response object on success and rethrows
  anything thrown as a GeminiApiError. Reading \<^verbatim>\<open>.content\<close> of the last message of an
  empty conversation throws a TypeError inside the \<^verbatim>\<open>try\<close>, before the service is
  called.
\<close>

definition agentSuccess :: "int \<Rightarrow> AgentPersona \<Rightarrow> string \<Rightarrow> ChatResponse" where
  "agentSuccess now persona responseText =
     \<lparr>response_message = responseText, response_agentPersona = persona,
      response_timestamp = Some now\<rparr>"

definition agentFailure :: "AgentPersona \<Rightarrow> thrown \<Rightarrow> js_error" where
  "agentFailure persona error =
     new_GeminiApiError
       (''Failed to generate response from '' @ persona_string persona @ '' agent'')
       (Some (asError error))"

definition generateAgentResponse ::
  "gemini_service \<Rightarrow> int \<Rightarrow> call_log \<Rightarrow> Conversation \<Rightarrow> AgentPersona \<Rightarrow> string
     \<Rightarrow> (js_error + ChatResponse) \<times> call_log" where
  "generateAgentResponse svc now log conversation persona systemPrompt =
     (let history = getGeminiFormat conversation
      in case messages conversation of
           [] \<Rightarrow> (Inl (agentFailure persona (ThrownError (TypeError
                    (''Cannot read properties of undefined (reading '' @ [CHR 0x27] @
                       ''content'' @ [CHR 0x27] @ '')'')))), log)
         | x # xs \<Rightarrow>
             (let prompt = agentPrompt systemPrompt (last (messages conversation));
                  sent = butlast history
              in case svc (length log) prompt sent of
                   Inr responseText \<Rightarrow>
                     (Inr (agentSuccess now persona responseText), log @ [(prompt, sent)])
                 | Inl error \<Rightarrow>
                     (Inl (agentFailure persona error), log @ [(prompt, sent)])))"

definition generateAgentResponses ::
  "gemini_service \<Rightarrow> int \<Rightarrow> Conversation \<Rightarrow> (js_error + ChatResponse list) \<times> call_log" where
  "generateAgentResponses svc now conversation =
     (let (r1, log1) = generateAgentResponse svc now [] conversation EXPLAINER
                         explainerSystemPrompt;
          responses1 = (case r1 of Inr explainerResponse \<Rightarrow> [] @ [explainerResponse]
                                 | Inl error \<Rightarrow> []);
          (r2, log2) = generateAgentResponse svc now log1 conversation EXAMPLE_PROVIDER
                         exampleSystemPrompt;
          responses2 = (case r2 of Inr exampleResponse \<Rightarrow> responses1 @ [exampleResponse]
                                 | Inl error \<Rightarrow> responses1)
      in if length responses2 = 0
         then (Inl (new_GeminiApiError ''Failed to generate responses from all agents'' None),
               log2)
         else (Inr responses2, log2))"

text \<open>The \<^verbatim>\<open>try\<close> block of \<^verbatim>\<open>execute\<close>, and \<^verbatim>\<open>execute\<close> with its \<^verbatim>\<open>catch\<close>.\<close>

definition execute_try ::
  "gemini_service \<Rightarrow> runtime \<Rightarrow> int \<Rightarrow> ChatRequest \<Rightarrow> (js_error + ChatResponse list) \<times> call_log" where
  "execute_try svc rt now request =
     (case validateRequest request of
        Inl e \<Rightarrow> (Inl e, [])
      | Inr u \<Rightarrow>
         (case createConversation rt now request of
            Inl e \<Rightarrow> (Inl e, [])
          | Inr conversation \<Rightarrow>
             (case new_Message USER (request_message request) (Some now) None of
                Inl e \<Rightarrow> (Inl e, [])
              | Inr userMessage \<Rightarrow>
                 (case addMessage now userMessage conversation of
                    (Inl e, conversation') \<Rightarrow> (Inl e, [])
                  | (Inr u, conversation') \<Rightarrow>
                      generateAgentResponses svc now conversation'))))"

definition execute ::
  "gemini_service \<Rightarrow> runtime \<Rightarrow> int \<Rightarrow> ChatRequest \<Rightarrow> (js_error + ChatResponse list) \<times> call_log" where
  "execute svc rt now request =
     (case execute_try svc rt now request of
        (Inr responses, log) \<Rightarrow> (Inr responses, log)
      | (Inl error, log) \<Rightarrow>
          (if isValidationError error \<or> isGeminiApiError error then (Inl error, log)
           else (Inl (new_GeminiApiError ''Failed to process chat request'' (Some error)), log)))"

section \<open>The combined-call parser of agentLogic.js\<close>

text \<open>
  \<open>splitAtFirst p s\<close> finds the leftmost occurrence of \<open>p\<close> in \<open>s\<close> and returns what is
  before and after it. The two regular expressions are
  \<^verbatim>\<open>/Explainer: ([\s\S]*?)\nExample:/\<close>, whose lazy group ends at the first line that
  starts with the example marker, and \<^verbatim>\<open>/Example: ([\s\S]*)/\<close>, whose greedy group runs
  to the end of the text. Each function returns group 1 of the match.
\<close>

fun splitAtFirst :: "string \<Rightarrow> string \<Rightarrow> (string \<times> string) option" where
  "splitAtFirst p [] = (if p = [] then Some ([], []) else None)"
| "splitAtFirst p (c # cs) =
     (if prefix p (c # cs) then Some ([], drop (length p) (c # cs))
      else case splitAtFirst p cs of
             None \<Rightarrow> None
           | Some (before, after) \<Rightarrow> Some (c # before, after))"

definition explainerMatch :: "string \<Rightarrow> string option" where
  "explainerMatch raw =
     (case splitAtFirst ''Explainer: '' raw of
        None \<Rightarrow> None
      | Some (before, rest) \<Rightarrow>
          (case splitAtFirst (CHR 0x0A # ''Example:'') rest of
             None \<Rightarrow> None
           | Some (group1, after) \<Rightarrow> Some group1))"

definition exampleMatch :: "string \<Rightarrow> string option" where
  "exampleMatch raw =
     (case splitAtFirst ''Example: '' raw of
        None \<Rightarrow> None
      | Some (before, group1) \<Rightarrow> Some group1)"

definition explainerFallback :: string where
  "explainerFallback = ''I'' @ [CHR 0x27] @ ''m sorry, I couldn'' @ [CHR 0x27] @ ''t generate a clear explanation for that topic right now. Please try rephrasing your question.''"

definition exampleFallback :: string where
  "exampleFallback = ''I'' @ [CHR 0x27] @ ''m sorry, I couldn'' @ [CHR 0x27] @ ''t generate a suitable example for that topic right now.''"

text \<open>
  Lines 45 to 60 of \<^verbatim>\<open>orchestrateAgents\<close>: a group replaces the fallback when the match
  exists and the group is truthy, that is not the empty string; it is trimmed then.
\<close>

definition parseCombinedResponse :: "string \<Rightarrow> string \<times> string" where
  "parseCombinedResponse combinedGeminiResponse =
     (let explainerResponse =
            (case explainerMatch combinedGeminiResponse of
               None \<Rightarrow> explainerFallback
             | Some g \<Rightarrow> if g \<noteq> [] then trim g else explainerFallback);
          exampleResponse =
            (case exampleMatch combinedGeminiResponse of
               None \<Rightarrow> exampleFallback
             | Some g \<Rightarrow> if g \<noteq> [] then trim g else exampleFallback)
      in (explainerResponse, exampleResponse))"

section \<open>Example values\<close>

text \<open>
  A runtime that knows one instant, the one of the repository's own Message tests, and
  the values on which the statements below are tried out.
\<close>

definition example_runtime :: runtime where
  "example_runtime =
     \<lparr>toISOString = (\<lambda>ms. if ms = 1704067200000 then ''2024-01-01T00:00:00.000Z'' else ''?''),
      parseDate = (\<lambda>s. if s = ''2024-01-01T00:00:00.000Z'' then Some 1704067200000 else None)\<rparr>"

definition example_request :: ChatRequest where
  "example_request =
     \<lparr>request_message = '' What is recursion? '', conversationHistory = None,
      request_subject = None, request_topic = None\<rparr>"

definition example_message :: Message where
  "example_message =
     \<lparr>role = ASSISTANT, content = ''Test message'', timestamp = Some 1704067200000,
      agentPersona = Some EXPLAINER\<rparr>"

definition example_conversation :: Conversation where
  "example_conversation = new_Conversation 0 [example_message] None None None"

definition failing_sdk :: "string \<Rightarrow> sdk" where
  "failing_sdk msg =
     \<lparr>sendMessage = (\<lambda>attempt history prompt. Inl (ThrownError (Error msg))),
      generateContent = (\<lambda>attempt prompt. Inl (ThrownError (Error msg)))\<rparr>"

definition explainer_down :: gemini_service where
  "explainer_down = (\<lambda>k prompt history.
     if k = 0 then Inl (ThrownError (Error ''fetch failed'')) else Inr ''An example'')"

definition all_down :: gemini_service where
  "all_down = (\<lambda>k prompt history. Inl (ThrownError (Error ''fetch failed'')))"

definition all_up :: gemini_service where
  "all_up = (\<lambda>k prompt history. if k = 0 then Inr ''An explanation'' else Inr ''An example'')"

definition example_user_message :: Message where
  "example_user_message =
     \<lparr>role = USER, content = ''What is recursion?'', timestamp = Some 0, agentPersona = None\<rparr>"

definition blank_request :: ChatRequest where
  "blank_request = example_request\<lparr>request_message := [CHR '' '', CHR 0x09, CHR 0x0A]\<rparr>"

definition long_request :: ChatRequest where
  "long_request = example_request\<lparr>request_message := replicate 5001 (CHR ''a'')\<rparr>"

definition bad_history_request :: ChatRequest where
  "bad_history_request = example_request\<lparr>conversationHistory :=
     Some [\<lparr>json_role = ASSISTANT, json_content = ''   '', json_timestamp = None,
            json_agentPersona = None\<rparr>]\<rparr>"

definition full_conversation :: Conversation where
  "full_conversation = new_Conversation 0 (replicate 100 example_message) None None None"

definition full_history_request :: ChatRequest where
  "full_history_request = example_request\<lparr>conversationHistory :=
     Some (replicate 100 \<lparr>json_role = USER, json_content = ''hello'', json_timestamp = None,
            json_agentPersona = None\<rparr>)\<rparr>"

definition sdk_of :: "(nat \<Rightarrow> thrown + string) \<Rightarrow> sdk" where
  "sdk_of outcome =
     \<lparr>sendMessage = (\<lambda>attempt history prompt. outcome attempt),
      generateContent = (\<lambda>attempt prompt. outcome attempt)\<rparr>"

definition fails_from :: "nat \<Rightarrow> string \<Rightarrow> sdk" where
  "fails_from k msg = sdk_of (\<lambda>attempt.
     if attempt < k then Inl (ThrownError (Error ''socket hang up''))
     else Inl (ThrownError (Error msg)))"

definition throws_string :: "string \<Rightarrow> sdk" where
  "throws_string v = sdk_of (\<lambda>attempt. Inl (ThrownValue v))"

definition history_request :: ChatRequest where
  "history_request = example_request\<lparr>conversationHistory :=
     Some [\<lparr>json_role = USER, json_content = ''What is a loop?'', json_timestamp = None,
            json_agentPersona = None\<rparr>,
           \<lparr>json_role = ASSISTANT, json_content = ''A loop repeats.'', json_timestamp = None,
            json_agentPersona = Some EXPLAINER\<rparr>]\<rparr>"

definition history_conversation :: Conversation where
  "history_conversation = new_Conversation 0
     [\<lparr>role = USER, content = ''What is a loop?'', timestamp = Some 0, agentPersona = None\<rparr>,
      \<lparr>role = ASSISTANT, content = ''A loop repeats.'', timestamp = Some 0,
       agentPersona = Some EXPLAINER\<rparr>] None None None"

definition example_down :: gemini_service where
  "example_down = (\<lambda>k prompt history.
     if k = 0 then Inr ''An explanation'' else Inl (ThrownValue ''timeout''))"

section \<open>Facts about trimming\<close>

lemma dropWhile_snoc_keeps_last:
  "\<not> P x \<Longrightarrow> \<exists>u. dropWhile P (ys @ [x]) = u @ [x]"
  by (induction ys) auto

lemma dropWhile_trimmed_end:
  assumes "xs = [] \<or> \<not> P (hd xs)"
  shows "dropWhile P (rev (dropWhile P (rev xs))) = rev (dropWhile P (rev xs))"
proof (cases xs)
  case Nil
  then show ?thesis by simp
next
  case (Cons x t)
  with assms have nx: "\<not> P x" by simp
  obtain u where u: "dropWhile P (rev t @ [x]) = u @ [x]"
    using dropWhile_snoc_keeps_last [of P x "rev t"] nx by blast
  show ?thesis using Cons u nx by simp
qed

lemma dropWhile_trim: "dropWhile isWhiteSpace (trim s) = trim s"
  unfolding trim_def
  by (rule dropWhile_trimmed_end) (metis hd_dropWhile)

lemma trim_idem: "trim (trim s) = trim s"
proof -
  have "trim (trim s) = rev (dropWhile isWhiteSpace (rev (trim s)))"
    by (simp add: trim_def [of "trim s"] dropWhile_trim)
  also have "\<dots> = trim s"
    by (simp add: trim_def)
  finally show ?thesis .
qed

lemma trim_replicate: "\<not> isWhiteSpace a \<Longrightarrow> trim (replicate n a) = replicate n a"
  by (cases n)
    (simp_all add: trim_def dropWhile_eq_self_iff replicate_append_same [symmetric]
      del: replicate_Suc)

lemma length_trim_le: "length (trim s) \<le> length s"
  unfolding trim_def
  by (metis length_dropWhile_le length_rev le_trans)

section \<open>Facts about the Message constructor\<close>

text \<open>
  The constructor succeeds exactly when the trimmed content is non-empty and has at most
  10000 code units, and every error it throws is a plain \<^verbatim>\<open>Error\<close>.
\<close>

lemma validateContent_ok:
  "validateContent c = Inr () \<longleftrightarrow> trim c \<noteq> [] \<and> length (trim c) \<le> 10000"
proof (cases "c = []")
  case True
  then show ?thesis by (simp add: validateContent_def trim_def)
next
  case False
  then show ?thesis by (auto simp: validateContent_def Let_def)
qed

lemma new_Message_ok:
  "new_Message r c ts p = Inr m \<longleftrightarrow>
     trim c \<noteq> [] \<and> length (trim c) \<le> 10000 \<and>
     m = \<lparr>role = r, content = trim c, timestamp = ts, agentPersona = p\<rparr>"
proof (cases "validateContent c")
  case (Inl e)
  then have "validateContent c \<noteq> Inr ()" by simp
  with Inl show ?thesis using validateContent_ok [of c] by (auto simp: new_Message_def)
next
  case (Inr u)
  then have "validateContent c = Inr ()" by simp
  then show ?thesis using validateContent_ok [of c] by (auto simp: new_Message_def)
qed

lemma new_Message_fails:
  "(\<exists>e. new_Message r c ts p = Inl e) \<longleftrightarrow> trim c = [] \<or> length (trim c) > 10000"
proof -
  have "(\<exists>e. new_Message r c ts p = Inl e) \<longleftrightarrow> \<not> (\<exists>m. new_Message r c ts p = Inr m)"
    by (cases "new_Message r c ts p") auto
  then show ?thesis unfolding new_Message_ok by auto
qed

lemma validateContent_error: "validateContent c = Inl e \<Longrightarrow> \<exists>m. e = Error m"
  by (auto simp: validateContent_def Let_def split: if_splits)

lemma new_Message_error: "new_Message r c ts p = Inl e \<Longrightarrow> \<exists>m. e = Error m"
  by (auto simp: new_Message_def split: sum.splits dest: validateContent_error)

section \<open>Facts about Conversation\<close>

lemma addMessage_full:
  "length (messages c) \<ge> 100 \<Longrightarrow>
     addMessage now m c = (Inl (Error ''Conversation history limit of 100 messages reached''), c)"
  by (simp add: addMessage_def validateMessageAddition_def)

lemma addMessage_room:
  "length (messages c) < 100 \<Longrightarrow>
     addMessage now m c = (Inr (), c\<lparr>messages := messages c @ [m], updatedAt := Some now\<rparr>)"
  by (simp add: addMessage_def validateMessageAddition_def)

lemma addMessage_error: "addMessage now m c = (Inl e, c') \<Longrightarrow> \<exists>m. e = Error m"
  by (auto simp: addMessage_def validateMessageAddition_def Let_def split: if_splits)

lemma getRecentMessages_pos:
  "0 < n \<Longrightarrow> getRecentMessages c (int n) = drop (length (messages c) - n) (messages c)"
proof -
  assume "0 < n"
  moreover have "nat (max (int (length (messages c)) - int n) 0) = length (messages c) - n"
    by arith
  ultimately show ?thesis by (simp add: getRecentMessages_def slice_from_def)
qed

section \<open>Facts about the parser\<close>

text \<open>
  \<^const>\<open>splitAtFirst\<close> fails exactly when the pattern does not occur, and otherwise splits
  the text around an occurrence.
\<close>

lemma splitAtFirst_None: "splitAtFirst p s = None \<longleftrightarrow> \<not> sublist p s"
  by (induction s) (auto simp: sublist_Cons_right split: option.splits)

lemma splitAtFirst_Some: "splitAtFirst p s = Some (b, a) \<Longrightarrow> s = b @ p @ a"
proof (induction s arbitrary: b)
  case Nil
  then show ?case by (simp split: if_splits)
next
  case (Cons c cs)
  show ?case
  proof (cases "prefix p (c # cs)")
    case True
    then obtain r where r: "c # cs = p @ r" by (auto simp: prefix_def)
    then have d: "drop (length p) (c # cs) = r" by (metis append_eq_conv_conj)
    from Cons.prems True have "b = []" and "a = drop (length p) (c # cs)" by simp_all
    with d r show ?thesis by simp
  next
    case False
    with Cons.prems obtain b' where "splitAtFirst p cs = Some (b', a)" and "b = c # b'"
      by (auto split: option.splits)
    with Cons.IH show ?thesis by simp
  qed
qed

lemma splitAtFirst_absent: "\<not> sublist p s \<Longrightarrow> splitAtFirst p s = None"
  by (simp add: splitAtFirst_None)

lemma sublist_behind: "sublist q r \<Longrightarrow> sublist q (b @ p @ r)"
proof -
  assume "sublist q r"
  then obtain ps ss where "r = ps @ q @ ss" by (auto simp: sublist_def)
  then have "b @ p @ r = (b @ p @ ps) @ q @ ss" by simp
  then show ?thesis unfolding sublist_def by blast
qed

lemma splitAtFirst_rest_absent:
  assumes "splitAtFirst p s = Some (b, r)" and "\<not> sublist q s"
  shows "splitAtFirst q r = None"
proof -
  from assms(1) have "s = b @ p @ r" by (rule splitAtFirst_Some)
  with assms(2) have "\<not> sublist q r" using sublist_behind [of q r b p] by auto
  then show ?thesis by (rule splitAtFirst_absent)
qed

lemma explainerMatch_no_marker:
  "\<not> str_includes raw ''Explainer: '' \<Longrightarrow> explainerMatch raw = None"
  unfolding explainerMatch_def str_includes_def
  by (drule splitAtFirst_absent) simp

lemma explainerMatch_no_example_line:
  assumes "\<not> str_includes raw (CHR 0x0A # ''Example:'')"
  shows "explainerMatch raw = None"
proof (cases "splitAtFirst ''Explainer: '' raw")
  case None
  then show ?thesis unfolding explainerMatch_def by simp
next
  case (Some ba)
  obtain b rest where ba: "ba = (b, rest)" by (cases ba)
  from assms have "\<not> sublist (CHR 0x0A # ''Example:'') raw"
    unfolding str_includes_def .
  with Some ba have "splitAtFirst (CHR 0x0A # ''Example:'') rest = None"
    using splitAtFirst_rest_absent by blast
  with Some ba show ?thesis unfolding explainerMatch_def by simp
qed

lemma exampleMatch_no_marker:
  "\<not> str_includes raw ''Example: '' \<Longrightarrow> exampleMatch raw = None"
  unfolding exampleMatch_def str_includes_def
  by (drule splitAtFirst_absent) simp

text \<open>
  The lazy group of the first expression ends at the first line that starts with the
  example marker; the greedy group of the second takes all that follows the marker.
\<close>

lemma matches_stop_at_first_marker:
  "explainerMatch (''Explainer: A'' @ [CHR 0x0A] @ ''Example: B'' @ [CHR 0x0A] @ ''Example: C'') =
     Some ''A''
   \<and> exampleMatch (''Explainer: A'' @ [CHR 0x0A] @ ''Example: B'' @ [CHR 0x0A] @ ''Example: C'') =
     Some (''B'' @ [CHR 0x0A] @ ''Example: C'')"
  by (simp add: explainerMatch_def exampleMatch_def)

section \<open>Facts about the retry loop\<close>

text \<open>One iteration of the loop, by the outcome of the attempt.\<close>

lemma loop_retry:
  assumes "attempt \<le> maxRetries" and "callModel m attempt p h = Inl x"
    and "\<not> isNonRetryableError x"
  shows "generateResponse_loop m p h attempt le tr =
     generateResponse_loop m p h (attempt + 1) (Some (asError x))
       (tr @ [Call attempt] @ (if attempt < maxRetries then [Delay (retryDelay * attempt)] else []))"
  using assms by (subst generateResponse_loop.simps) simp

lemma loop_exhausted:
  assumes "\<not> attempt \<le> maxRetries"
  shows "generateResponse_loop m p h attempt le tr =
     (Inl (new_GeminiApiError
        (''Failed to generate response after 3 attempts: '' @
           (case le of None \<Rightarrow> ''Unknown error''
            | Some e \<Rightarrow> if message_of e = [] then ''Unknown error'' else message_of e)) le), tr)"
  using assms by (subst generateResponse_loop.simps) simp

lemma loop_nonretryable:
  assumes "attempt \<le> maxRetries" and "callModel m attempt p h = Inl x"
    and "isNonRetryableError x"
  shows "generateResponse_loop m p h attempt le tr =
     (Inl (new_GeminiApiError (''Non-retryable error: '' @ message_of (asError x))
        (Some (asError x))), tr @ [Call attempt])"
  using assms by (subst generateResponse_loop.simps) (simp add: Let_def)

lemma loop_success:
  assumes "attempt \<le> maxRetries" and "callModel m attempt p h = Inr text"
  shows "generateResponse_loop m p h attempt le tr = (Inr text, tr @ [Call attempt])"
  using assms by (subst generateResponse_loop.simps) simp

lemma exhausted3:
  assumes "callModel m 1 p h = Inl x1" "callModel m 2 p h = Inl x2" "callModel m 3 p h = Inl x3"
    and "\<not> isNonRetryableError x1" "\<not> isNonRetryableError x2" "\<not> isNonRetryableError x3"
  shows "generateResponse m p h =
     (Inl (new_GeminiApiError
        (''Failed to generate response after 3 attempts: '' @
           (if message_of (asError x3) = [] then ''Unknown error'' else message_of (asError x3)))
        (Some (asError x3))),
      [Call 1, Delay 1000, Call 2, Delay 2000, Call 3])"
proof -
  have "generateResponse m p h =
      generateResponse_loop m p h 2 (Some (asError x1)) [Call 1, Delay 1000]"
    unfolding generateResponse_def
    using loop_retry [of 1 m p h x1 None "[]"] assms(1,4)
    by (simp add: maxRetries_def retryDelay_def del: One_nat_def)
  also have "\<dots> = generateResponse_loop m p h 3 (Some (asError x2))
      [Call 1, Delay 1000, Call 2, Delay 2000]"
    using loop_retry [of 2 m p h x2 "Some (asError x1)" "[Call 1, Delay 1000]"] assms(2,5)
    by (simp add: maxRetries_def retryDelay_def del: One_nat_def)
  also have "\<dots> = generateResponse_loop m p h 4 (Some (asError x3))
      [Call 1, Delay 1000, Call 2, Delay 2000, Call 3]"
    using loop_retry [of 3 m p h x3 "Some (asError x2)" "[Call 1, Delay 1000, Call 2, Delay 2000]"] assms(3,6)
    by (simp add: maxRetries_def retryDelay_def del: One_nat_def)
  also have "\<dots> = (Inl (new_GeminiApiError
        (''Failed to generate response after 3 attempts: '' @
           (if message_of (asError x3) = [] then ''Unknown error'' else message_of (asError x3)))
        (Some (asError x3))),
      [Call 1, Delay 1000, Call 2, Delay 2000, Call 3])"
    using loop_exhausted [of 4 m p h "Some (asError x3)"]
    by (simp add: maxRetries_def del: One_nat_def)
  finally show ?thesis .
qed

text \<open>
  The classification names exactly six markers, and an error that carries one of them
  ends the call at the attempt that threw it.
\<close>

lemma isNonRetryableError_markers:
  "isNonRetryableError (ThrownError e) \<longleftrightarrow>
     (\<exists>pattern \<in> set [''api key'', ''authentication'', ''unauthorized'', ''quota'',
                          ''billing'', ''invalid''].
        str_includes (toLowerCase (message_of e)) pattern)"
  by (simp add: nonRetryablePatterns_def Let_def)

lemma nonretryable_at_1:
  assumes "isNonRetryableError (ThrownError e)" and "callModel m 1 p h = Inl (ThrownError e)"
  shows "generateResponse m p h =
     (Inl (GeminiApiError (''Gemini API Error: Non-retryable error: '' @ message_of e) (Some e)),
      [Call 1])"
  unfolding generateResponse_def
  using assms loop_nonretryable [of 1 m p h "ThrownError e" None "[]"]
  by (simp add: new_GeminiApiError_def maxRetries_def del: One_nat_def)

lemma nonretryable_at_2:
  assumes "callModel m 1 p h = Inl x1" and "\<not> isNonRetryableError x1"
    and "isNonRetryableError (ThrownError e)" and "callModel m 2 p h = Inl (ThrownError e)"
  shows "generateResponse m p h =
     (Inl (GeminiApiError (''Gemini API Error: Non-retryable error: '' @ message_of e) (Some e)),
      [Call 1, Delay 1000, Call 2])"
proof -
  have "generateResponse m p h =
      generateResponse_loop m p h 2 (Some (asError x1)) [Call 1, Delay 1000]"
    unfolding generateResponse_def
    using loop_retry [of 1 m p h x1 None "[]"] assms(1,2)
    by (simp add: maxRetries_def retryDelay_def del: One_nat_def)
  also have "\<dots> =
      (Inl (GeminiApiError (''Gemini API Error: Non-retryable error: '' @ message_of e) (Some e)),
       [Call 1, Delay 1000, Call 2])"
    using loop_nonretryable [of 2 m p h "ThrownError e" "Some (asError x1)" "[Call 1, Delay 1000]"]
      assms(3,4)
    by (simp add: new_GeminiApiError_def maxRetries_def del: One_nat_def)
  finally show ?thesis .
qed

lemma nonretryable_at_3:
  assumes "callModel m 1 p h = Inl x1" and "\<not> isNonRetryableError x1"
    and "callModel m 2 p h = Inl x2" and "\<not> isNonRetryableError x2"
    and "isNonRetryableError (ThrownError e)" and "callModel m 3 p h = Inl (ThrownError e)"
  shows "generateResponse m p h =
     (Inl (GeminiApiError (''Gemini API Error: Non-retryable error: '' @ message_of e) (Some e)),
      [Call 1, Delay 1000, Call 2, Delay 2000, Call 3])"
proof -
  have "generateResponse m p h =
      generateResponse_loop m p h 2 (Some (asError x1)) [Call 1, Delay 1000]"
    unfolding generateResponse_def
    using loop_retry [of 1 m p h x1 None "[]"] assms(1,2)
    by (simp add: maxRetries_def retryDelay_def del: One_nat_def)
  also have "\<dots> = generateResponse_loop m p h 3 (Some (asError x2))
      [Call 1, Delay 1000, Call 2, Delay 2000]"
    using loop_retry [of 2 m p h x2 "Some (asError x1)" "[Call 1, Delay 1000]"] assms(3,4)
    by (simp add: maxRetries_def retryDelay_def del: One_nat_def)
  also have "\<dots> =
      (Inl (GeminiApiError (''Gemini API Error: Non-retryable error: '' @ message_of e) (Some e)),
       [Call 1, Delay 1000, Call 2, Delay 2000, Call 3])"
    using loop_nonretryable [of 3 m p h "ThrownError e" "Some (asError x2)"
        "[Call 1, Delay 1000, Call 2, Delay 2000]"] assms(5,6)
    by (simp add: new_GeminiApiError_def maxRetries_def del: One_nat_def)
  finally show ?thesis .
qed

section \<open>Facts about ChatUseCase\<close>

text \<open>
  On a conversation with at least one message both personas are asked, in the order
  explainer, example provider, whatever the first call does.
\<close>

lemma generateAgentResponse_empty:
  "messages c = [] \<Longrightarrow> snd (generateAgentResponse svc now log c persona sp) = log
     \<and> (\<exists>e. fst (generateAgentResponse svc now log c persona sp) = Inl e)"
  by (simp add: generateAgentResponse_def)

lemma generateAgentResponse_nonempty:
  assumes "messages c \<noteq> []"
  shows "generateAgentResponse svc now log c persona sp =
     (case svc (length log) (agentPrompt sp (last (messages c))) (butlast (getGeminiFormat c)) of
        Inr responseText \<Rightarrow> Inr (agentSuccess now persona responseText)
      | Inl error \<Rightarrow> Inl (agentFailure persona error),
      log @ [(agentPrompt sp (last (messages c)), butlast (getGeminiFormat c))])"
proof -
  from assms obtain x xs where "messages c = x # xs" by (cases "messages c") auto
  then show ?thesis
    by (simp add: generateAgentResponse_def Let_def split: sum.splits)
qed

lemma generateAgentResponses_empty:
  "messages c = [] \<Longrightarrow> generateAgentResponses svc now c =
     (Inl (new_GeminiApiError ''Failed to generate responses from all agents'' None), [])"
  by (simp add: generateAgentResponses_def generateAgentResponse_def)

lemma generateAgentResponses_nonempty:
  assumes "messages c \<noteq> []"
  shows "generateAgentResponses svc now c =
     (let h = butlast (getGeminiFormat c);
          p1 = agentPrompt explainerSystemPrompt (last (messages c));
          p2 = agentPrompt exampleSystemPrompt (last (messages c))
      in (case (svc 0 p1 h, svc 1 p2 h) of
            (Inr t1, Inr t2) \<Rightarrow> Inr [agentSuccess now EXPLAINER t1, agentSuccess now EXAMPLE_PROVIDER t2]
          | (Inr t1, Inl x2) \<Rightarrow> Inr [agentSuccess now EXPLAINER t1]
          | (Inl x1, Inr t2) \<Rightarrow> Inr [agentSuccess now EXAMPLE_PROVIDER t2]
          | (Inl x1, Inl x2) \<Rightarrow>
              Inl (new_GeminiApiError ''Failed to generate responses from all agents'' None),
          [(p1, h), (p2, h)]))"
  unfolding generateAgentResponses_def generateAgentResponse_nonempty [OF assms]
  by (simp add: Let_def split: sum.splits)

lemma generateAgentResponses_error:
  "generateAgentResponses svc now c = (Inl e, log) \<Longrightarrow> isGeminiApiError e"
proof (cases "messages c = []")
  case True
  assume "generateAgentResponses svc now c = (Inl e, log)"
  with True show ?thesis
    by (auto simp: generateAgentResponses_empty new_GeminiApiError_def)
next
  case False
  assume "generateAgentResponses svc now c = (Inl e, log)"
  with False show ?thesis
    by (auto simp: generateAgentResponses_nonempty Let_def new_GeminiApiError_def split: sum.splits)
qed

text \<open>What each step of the \<^verbatim>\<open>try\<close> block may throw.\<close>

lemma mapFromJSON_error: "mapFromJSON rt now ds = Inl e \<Longrightarrow> \<exists>m. e = Error m"
proof (induction ds)
  case Nil
  then show ?case by simp
next
  case (Cons d ds)
  then show ?case
    by (auto simp: fromJSON_def Let_def split: sum.splits dest: new_Message_error)
qed

lemma mapFromJSON_replicate:
  "fromJSON rt now d = Inr m \<Longrightarrow> mapFromJSON rt now (replicate n d) = Inr (replicate n m)"
  by (induction n) simp_all

lemma createConversation_error: "createConversation rt now request = Inl e \<Longrightarrow> \<exists>m. e = Error m"
  by (auto simp: createConversation_def split: sum.splits option.splits dest: mapFromJSON_error)

lemma validateRequest_error: "validateRequest request = Inl e \<Longrightarrow> \<exists>m. e = ValidationError m"
  by (auto simp: validateRequest_def Let_def split: if_splits)

lemma validateRequest_ok:
  "validateRequest request = Inr () \<longleftrightarrow>
     trim (request_message request) \<noteq> [] \<and> length (trim (request_message request)) \<le> 5000"
proof (cases "request_message request = []")
  case True
  then show ?thesis by (simp add: validateRequest_def trim_def)
next
  case False
  then show ?thesis by (auto simp: validateRequest_def Let_def)
qed

lemma error_kinds_disjoint: "isGeminiApiError e \<Longrightarrow> \<not> isValidationError e"
  by (cases e) auto

lemma execute_try_invalid:
  "validateRequest request = Inl e \<Longrightarrow> execute_try svc rt now request = (Inl e, [])"
  by (simp add: execute_try_def)

lemma execute_try_valid_error:
  assumes "validateRequest request = Inr ()" and "execute_try svc rt now request = (Inl e, log)"
  shows "\<not> isValidationError e"
  using assms
  by (auto simp: execute_try_def split: sum.splits prod.splits
      dest!: createConversation_error new_Message_error addMessage_error generateAgentResponses_error
      dest: error_kinds_disjoint)

text \<open>\<^verbatim>\<open>execute\<close> against its \<^verbatim>\<open>try\<close> block.\<close>

lemma execute_snd: "snd (execute svc rt now request) = snd (execute_try svc rt now request)"
  by (simp add: execute_def split: prod.splits sum.splits)

lemma execute_fst_Inr:
  "fst (execute svc rt now request) = Inr rs \<longleftrightarrow> fst (execute_try svc rt now request) = Inr rs"
  by (auto simp: execute_def new_GeminiApiError_def split: prod.splits sum.splits if_splits)


lemma execute_try_Inr:
  assumes "fst (execute_try svc rt now request) = Inr rs"
  shows "\<exists>c. messages c \<noteq> [] \<and> execute_try svc rt now request = generateAgentResponses svc now c"
proof -
  from assms obtain c where c: "execute_try svc rt now request = generateAgentResponses svc now c"
    by (auto simp: execute_try_def split: sum.splits prod.splits)
  with assms have "messages c \<noteq> []"
    by (auto simp: generateAgentResponses_empty)
  with c show ?thesis by blast
qed


lemma execute_never_empty: "fst (execute svc rt now request) \<noteq> Inr []"
proof
  assume "fst (execute svc rt now request) = Inr []"
  then have e: "fst (execute_try svc rt now request) = Inr []" by (simp add: execute_fst_Inr)
  then obtain c where c: "messages c \<noteq> []"
      "execute_try svc rt now request = generateAgentResponses svc now c"
    using execute_try_Inr by blast
  from e show False
    unfolding c(2) generateAgentResponses_nonempty [OF c(1)]
    by (simp add: Let_def split: sum.splits)
qed

lemma execute_invalid:
  assumes "validateRequest request \<noteq> Inr ()"
  shows "\<exists>m. execute svc rt now request = (Inl (ValidationError m), [])"
proof -
  from assms obtain e where e: "validateRequest request = Inl e"
    by (cases "validateRequest request") auto
  then obtain m where "e = ValidationError m" using validateRequest_error by blast
  with e show ?thesis by (simp add: execute_def execute_try_invalid)
qed

lemma execute_valid_no_validation_error:
  assumes "validateRequest request = Inr ()"
  shows "fst (execute svc rt now request) \<noteq> Inl (ValidationError m)"
proof
  assume a: "fst (execute svc rt now request) = Inl (ValidationError m)"
  obtain r log where rl: "execute_try svc rt now request = (r, log)"
    by (cases "execute_try svc rt now request")
  with a obtain e where e: "r = Inl e" by (cases r) (auto simp: execute_def)
  with assms rl have "\<not> isValidationError e" using execute_try_valid_error by blast
  with a rl e show False
    by (cases e) (auto simp: execute_def new_GeminiApiError_def split: if_splits)
qed

lemma execute_valid_fresh_calls:
  assumes "validateRequest request = Inr ()" and "conversationHistory request = None"
  shows "length (snd (execute svc rt now request)) = 2"
proof -
  from assms(1) have ok: "trim (request_message request) \<noteq> []"
      "length (trim (request_message request)) \<le> 10000"
    by (simp_all add: validateRequest_ok)
  define um where "um = \<lparr>role = USER, content = trim (request_message request),
      timestamp = Some now, agentPersona = None\<rparr>"
  define c where "c = (new_Conversation now [] (request_subject request) (request_topic request) None)
      \<lparr>messages := [um], updatedAt := Some now\<rparr>"
  from ok have m: "new_Message USER (request_message request) (Some now) None = Inr um"
    by (simp add: new_Message_ok um_def)
  have "execute_try svc rt now request = generateAgentResponses svc now c"
    using assms m
    by (simp add: execute_try_def createConversation_def addMessage_room new_Conversation_def c_def)
  moreover have "messages c \<noteq> []" by (simp add: c_def)
  ultimately show ?thesis
    by (simp add: execute_snd generateAgentResponses_nonempty Let_def)
qed

lemma execute_wraps:
  assumes "execute_try svc rt now request = (Inl e, log)"
    and "\<not> isValidationError e" and "\<not> isGeminiApiError e"
  shows "execute svc rt now request =
     (Inl (GeminiApiError ''Gemini API Error: Failed to process chat request'' (Some e)), log)"
  using assms by (simp add: execute_def new_GeminiApiError_def)


text \<open>
  A valid request whose history is restored and has room reaches both persona calls;
  the history sent is the restored one, without the new user message.
\<close>

lemma getGeminiFormat_append:
  "getGeminiFormat (c\<lparr>messages := messages c @ [m], updatedAt := u\<rparr>) =
     getGeminiFormat c @
       [\<lparr>gemini_role = (if role m = USER then ''user'' else ''model''), parts = [content m]\<rparr>]"
  by (simp add: getGeminiFormat_def)

lemma execute_try_reaches:
  assumes "validateRequest request = Inr ()"
    and "createConversation rt now request = Inr c"
    and "length (messages c) < 100"
  shows "execute_try svc rt now request =
     generateAgentResponses svc now
       (c\<lparr>messages := messages c @
            [\<lparr>role = USER, content = trim (request_message request), timestamp = Some now,
              agentPersona = None\<rparr>],
          updatedAt := Some now\<rparr>)"
proof -
  from assms(1) have "trim (request_message request) \<noteq> []"
      "length (trim (request_message request)) \<le> 10000"
    by (simp_all add: validateRequest_ok)
  then have "new_Message USER (request_message request) (Some now) None =
      Inr \<lparr>role = USER, content = trim (request_message request), timestamp = Some now,
           agentPersona = None\<rparr>"
    by (simp add: new_Message_ok)
  with assms show ?thesis by (simp add: execute_try_def addMessage_room)
qed

lemma execute_try_both_asked:
  assumes "validateRequest request = Inr ()"
    and "createConversation rt now request = Inr c"
    and "length (messages c) < 100"
  shows "execute_try svc rt now request =
     (let um = \<lparr>role = USER, content = trim (request_message request), timestamp = Some now,
                agentPersona = None\<rparr>;
          h = getGeminiFormat c;
          p1 = agentPrompt explainerSystemPrompt um;
          p2 = agentPrompt exampleSystemPrompt um
      in (case (svc 0 p1 h, svc 1 p2 h) of
            (Inr t1, Inr t2) \<Rightarrow> Inr [agentSuccess now EXPLAINER t1, agentSuccess now EXAMPLE_PROVIDER t2]
          | (Inr t1, Inl x2) \<Rightarrow> Inr [agentSuccess now EXPLAINER t1]
          | (Inl x1, Inr t2) \<Rightarrow> Inr [agentSuccess now EXAMPLE_PROVIDER t2]
          | (Inl x1, Inl x2) \<Rightarrow>
              Inl (new_GeminiApiError ''Failed to generate responses from all agents'' None),
          [(p1, h), (p2, h)]))"
  unfolding execute_try_reaches [OF assms]
  by (subst generateAgentResponses_nonempty) (simp_all add: getGeminiFormat_append Let_def)

lemma execute_of_try:
  "execute_try svc rt now request = (Inr rs, log) \<Longrightarrow> execute svc rt now request = (Inr rs, log)"
  "execute_try svc rt now request = (Inl (GeminiApiError msg cause), log) \<Longrightarrow>
     execute svc rt now request = (Inl (GeminiApiError msg cause), log)"
  by (simp_all add: execute_def)

section \<open>C1: the retry policy of GeminiService.generateResponse\<close>

text \<open>
  C1. A thrown value is a generic transient failure when it is not an \<^verbatim>\<open>Error\<close>, or is
  an \<^verbatim>\<open>Error\<close> whose lower-cased message includes none of the six markers "api key",
  "authentication", "unauthorized", "quota", "billing", "invalid". When the three
  attempts of \<^verbatim>\<open>generateResponse\<close> all throw such values, the SDK is called exactly
  three times, with delays of 1000 and 2000 milliseconds in between, and the call fails
  with a GeminiApiError whose cause is the last thrown error, or \<^verbatim>\<open>new Error\<close> of its
  text when it is not an \<^verbatim>\<open>Error\<close>. When the first, second or third attempt throws an
  \<^verbatim>\<open>Error\<close> whose lower-cased message includes one of the six markers, the call fails
  at once with the GeminiApiError marked "Non-retryable error" that carries this error
  as cause: that attempt is the last event, and no delay or call follows it.
\<close>

theorem generateResponse_retry_policy:
  "let markers = [''api key'', ''authentication'', ''unauthorized'', ''quota'', ''billing'',
                  ''invalid''];
       marked = (\<lambda>e. \<exists>pattern \<in> set markers.
                   str_includes (toLowerCase (message_of e)) pattern);
       transient = (\<lambda>x. case x of ThrownError e \<Rightarrow> \<not> marked e | ThrownValue v \<Rightarrow> True);
       cause = (\<lambda>x. case x of ThrownError e \<Rightarrow> e | ThrownValue v \<Rightarrow> Error v);
       nonRetryable = (\<lambda>e. Inl (GeminiApiError
                         (''Gemini API Error: Non-retryable error: '' @ message_of e) (Some e)))
   in (callModel m 1 p h = Inl x1 \<and> transient x1 \<and>
       callModel m 2 p h = Inl x2 \<and> transient x2 \<and>
       callModel m 3 p h = Inl x3 \<and> transient x3 \<longrightarrow>
       generateResponse m p h =
         (Inl (GeminiApiError
                 (''Gemini API Error: Failed to generate response after 3 attempts: '' @
                    (if message_of (cause x3) = [] then ''Unknown error''
                     else message_of (cause x3)))
                 (Some (cause x3))),
          [Call 1, Delay 1000, Call 2, Delay 2000, Call 3]))
    \<and> (callModel m 1 p h = Inl (ThrownError e) \<and> marked e \<longrightarrow>
       generateResponse m p h = (nonRetryable e, [Call 1]))
    \<and> (callModel m 1 p h = Inl x1 \<and> transient x1 \<and>
       callModel m 2 p h = Inl (ThrownError e) \<and> marked e \<longrightarrow>
       generateResponse m p h = (nonRetryable e, [Call 1, Delay 1000, Call 2]))
    \<and> (callModel m 1 p h = Inl x1 \<and> transient x1 \<and>
       callModel m 2 p h = Inl x2 \<and> transient x2 \<and>
       callModel m 3 p h = Inl (ThrownError e) \<and> marked e \<longrightarrow>
       generateResponse m p h =
         (nonRetryable e, [Call 1, Delay 1000, Call 2, Delay 2000, Call 3]))"
proof -
  define marked where "marked = (\<lambda>e. \<exists>pattern \<in> set [''api key'', ''authentication'',
      ''unauthorized'', ''quota'', ''billing'', ''invalid''].
      str_includes (toLowerCase (message_of e)) pattern)"
  define transient where
    "transient = (\<lambda>x. case x of ThrownError e \<Rightarrow> \<not> marked e | ThrownValue v \<Rightarrow> True)"
  define cause where "cause = (\<lambda>x. case x of ThrownError e \<Rightarrow> e | ThrownValue v \<Rightarrow> Error v)"
  have mk: "marked e \<longleftrightarrow> isNonRetryableError (ThrownError e)" for e
    unfolding marked_def isNonRetryableError_markers ..
  have tr: "transient x \<longleftrightarrow> \<not> isNonRetryableError x" for x
    by (cases x) (simp_all add: transient_def mk)
  have ca: "cause x = asError x" for x
    by (cases x) (simp_all add: cause_def)
  have A: "generateResponse m p h =
         (Inl (GeminiApiError
                 (''Gemini API Error: Failed to generate response after 3 attempts: '' @
                    (if message_of (cause x3) = [] then ''Unknown error''
                     else message_of (cause x3)))
                 (Some (cause x3))),
          [Call 1, Delay 1000, Call 2, Delay 2000, Call 3])"
    if "callModel m 1 p h = Inl x1 \<and> transient x1 \<and>
       callModel m 2 p h = Inl x2 \<and> transient x2 \<and>
       callModel m 3 p h = Inl x3 \<and> transient x3"
    using that exhausted3 [of m p h x1 x2 x3]
    by (simp add: tr ca new_GeminiApiError_def del: One_nat_def)
  have B: "generateResponse m p h =
      (Inl (GeminiApiError (''Gemini API Error: Non-retryable error: '' @ message_of e) (Some e)),
       [Call 1])"
    if "callModel m 1 p h = Inl (ThrownError e) \<and> marked e"
    using that nonretryable_at_1 [of e m p h] by (simp add: mk del: One_nat_def)
  have C: "generateResponse m p h =
      (Inl (GeminiApiError (''Gemini API Error: Non-retryable error: '' @ message_of e) (Some e)),
       [Call 1, Delay 1000, Call 2])"
    if "callModel m 1 p h = Inl x1 \<and> transient x1 \<and>
       callModel m 2 p h = Inl (ThrownError e) \<and> marked e"
    using that nonretryable_at_2 [of m p h x1 e] by (simp add: mk tr del: One_nat_def)
  have D: "generateResponse m p h =
      (Inl (GeminiApiError (''Gemini API Error: Non-retryable error: '' @ message_of e) (Some e)),
       [Call 1, Delay 1000, Call 2, Delay 2000, Call 3])"
    if "callModel m 1 p h = Inl x1 \<and> transient x1 \<and>
       callModel m 2 p h = Inl x2 \<and> transient x2 \<and>
       callModel m 3 p h = Inl (ThrownError e) \<and> marked e"
    using that nonretryable_at_3 [of m p h x1 x2 e] by (simp add: mk tr del: One_nat_def)
  from A B C D show ?thesis
    unfolding Let_def marked_def transient_def cause_def by blast
qed

text \<open>
  A socket error and a thrown string are tried three times; an error with any of the
  six markers, in whatever case, ends the call at the first attempt, and after
  transient failures at the second or the third.
\<close>

theorem generateResponse_retry_policy_witness:
  "generateResponse (failing_sdk ''socket hang up'') ''hi'' [] =
     (Inl (GeminiApiError
        ''Gemini API Error: Failed to generate response after 3 attempts: socket hang up''
        (Some (Error ''socket hang up''))),
      [Call 1, Delay 1000, Call 2, Delay 2000, Call 3])
   \<and> generateResponse (throws_string ''quota exceeded'') ''hi'' [] =
     (Inl (GeminiApiError
        ''Gemini API Error: Failed to generate response after 3 attempts: quota exceeded''
        (Some (Error ''quota exceeded''))),
      [Call 1, Delay 1000, Call 2, Delay 2000, Call 3])
   \<and> generateResponse (failing_sdk ''API key not found'') ''hi'' [] =
     (Inl (GeminiApiError ''Gemini API Error: Non-retryable error: API key not found''
        (Some (Error ''API key not found''))), [Call 1])
   \<and> generateResponse (failing_sdk ''Authentication failed'') ''hi'' [] =
     (Inl (GeminiApiError ''Gemini API Error: Non-retryable error: Authentication failed''
        (Some (Error ''Authentication failed''))), [Call 1])
   \<and> generateResponse (failing_sdk ''401 Unauthorized'') ''hi'' [] =
     (Inl (GeminiApiError ''Gemini API Error: Non-retryable error: 401 Unauthorized''
        (Some (Error ''401 Unauthorized''))), [Call 1])
   \<and> generateResponse (failing_sdk ''Quota exceeded'') ''hi'' [] =
     (Inl (GeminiApiError ''Gemini API Error: Non-retryable error: Quota exceeded''
        (Some (Error ''Quota exceeded''))), [Call 1])
   \<and> generateResponse (failing_sdk ''BILLING disabled'') ''hi'' [] =
     (Inl (GeminiApiError ''Gemini API Error: Non-retryable error: BILLING disabled''
        (Some (Error ''BILLING disabled''))), [Call 1])
   \<and> generateResponse (failing_sdk ''Invalid argument'') ''hi'' [] =
     (Inl (GeminiApiError ''Gemini API Error: Non-retryable error: Invalid argument''
        (Some (Error ''Invalid argument''))), [Call 1])
   \<and> generateResponse (fails_from 2 ''Unauthorized'') ''hi'' [] =
     (Inl (GeminiApiError ''Gemini API Error: Non-retryable error: Unauthorized''
        (Some (Error ''Unauthorized''))), [Call 1, Delay 1000, Call 2])
   \<and> generateResponse (fails_from 3 ''Billing account closed'') ''hi'' [] =
     (Inl (GeminiApiError ''Gemini API Error: Non-retryable error: Billing account closed''
        (Some (Error ''Billing account closed''))),
      [Call 1, Delay 1000, Call 2, Delay 2000, Call 3])"
proof -
  note run = failing_sdk_def throws_string_def fails_from_def sdk_of_def callModel_def
    str_includes_def sublist_code toLowerCase_def toLowerCaseChar_def Let_def
  have transient_error: "generateResponse (failing_sdk ''socket hang up'') ''hi'' [] =
     (Inl (GeminiApiError
        ''Gemini API Error: Failed to generate response after 3 attempts: socket hang up''
        (Some (Error ''socket hang up''))),
      [Call 1, Delay 1000, Call 2, Delay 2000, Call 3])"
    using generateResponse_retry_policy [where m = "failing_sdk ''socket hang up''"
        and p = "''hi''" and h = "[]" and ?x1.0 = "ThrownError (Error ''socket hang up'')"
        and ?x2.0 = "ThrownError (Error ''socket hang up'')"
        and ?x3.0 = "ThrownError (Error ''socket hang up'')"]
    by (simp add: run del: One_nat_def)
  have thrown_string: "generateResponse (throws_string ''quota exceeded'') ''hi'' [] =
     (Inl (GeminiApiError
        ''Gemini API Error: Failed to generate response after 3 attempts: quota exceeded''
        (Some (Error ''quota exceeded''))),
      [Call 1, Delay 1000, Call 2, Delay 2000, Call 3])"
    using generateResponse_retry_policy [where m = "throws_string ''quota exceeded''"
        and p = "''hi''" and h = "[]" and ?x1.0 = "ThrownValue ''quota exceeded''"
        and ?x2.0 = "ThrownValue ''quota exceeded''"
        and ?x3.0 = "ThrownValue ''quota exceeded''"]
    by (simp add: run del: One_nat_def)
  have at_once: "generateResponse (failing_sdk msg) ''hi'' [] =
     (Inl (GeminiApiError (''Gemini API Error: Non-retryable error: '' @ msg)
        (Some (Error msg))), [Call 1])"
    if "\<exists>pattern \<in> set [''api key'', ''authentication'', ''unauthorized'', ''quota'',
          ''billing'', ''invalid'']. str_includes (toLowerCase msg) pattern" for msg
    using that generateResponse_retry_policy [where m = "failing_sdk msg"
        and p = "''hi''" and h = "[]" and e = "Error msg"]
    by (simp add: Let_def failing_sdk_def callModel_def del: One_nat_def)
  have second: "generateResponse (fails_from 2 ''Unauthorized'') ''hi'' [] =
     (Inl (GeminiApiError ''Gemini API Error: Non-retryable error: Unauthorized''
        (Some (Error ''Unauthorized''))), [Call 1, Delay 1000, Call 2])"
    using generateResponse_retry_policy [where m = "fails_from 2 ''Unauthorized''"
        and p = "''hi''" and h = "[]" and ?x1.0 = "ThrownError (Error ''socket hang up'')"
        and e = "Error ''Unauthorized''"]
    by (simp add: run del: One_nat_def)
  have third: "generateResponse (fails_from 3 ''Billing account closed'') ''hi'' [] =
     (Inl (GeminiApiError ''Gemini API Error: Non-retryable error: Billing account closed''
        (Some (Error ''Billing account closed''))),
      [Call 1, Delay 1000, Call 2, Delay 2000, Call 3])"
    using generateResponse_retry_policy [where m = "fails_from 3 ''Billing account closed''"
        and p = "''hi''" and h = "[]" and ?x1.0 = "ThrownError (Error ''socket hang up'')"
        and ?x2.0 = "ThrownError (Error ''socket hang up'')"
        and e = "Error ''Billing account closed''"]
    by (simp add: run del: One_nat_def)
  show ?thesis
    using transient_error thrown_string second third
      at_once [of "''API key not found''"] at_once [of "''Authentication failed''"]
      at_once [of "''401 Unauthorized''"] at_once [of "''Quota exceeded''"]
      at_once [of "''BILLING disabled''"] at_once [of "''Invalid argument''"]
    by (simp add: str_includes_def sublist_code toLowerCase_def toLowerCaseChar_def Let_def
        del: One_nat_def)
qed

section \<open>C2: partial failure in ChatUseCase.execute\<close>

text \<open>
  C2. Take a request that passes validation and whose history is restored to a
  conversation with room for the user message. \<^verbatim>\<open>execute\<close> then calls the service for
  the explainer and, whatever that call does, for the example provider, each with its
  prompt and the restored history. If the explainer's call throws and the example
  provider's returns, \<^verbatim>\<open>execute\<close> returns exactly one response, tagged
  \<^verbatim>\<open>example_provider\<close>; if the explainer's returns and the example provider's throws,
  exactly one tagged \<^verbatim>\<open>explainer\<close>; if both throw, it fails with the GeminiApiError
  "Failed to generate responses from all agents". In each case the log holds both
  calls. Whatever the request, \<^verbatim>\<open>execute\<close> never returns the empty list.
\<close>

theorem execute_partial_failure:
  "let userMessage = \<lparr>role = USER, content = trim (request_message request),
                       timestamp = Some now, agentPersona = None\<rparr>;
       history = getGeminiFormat c;
       explainerPrompt = agentPrompt explainerSystemPrompt userMessage;
       examplePrompt = agentPrompt exampleSystemPrompt userMessage;
       reached = (validateRequest request = Inr () \<and>
                  createConversation rt now request = Inr c \<and> length (messages c) < 100)
   in (reached \<and> svc 0 explainerPrompt history = Inl x1 \<and>
         svc 1 examplePrompt history = Inr t2 \<longrightarrow>
       execute svc rt now request =
         (Inr [\<lparr>response_message = t2, response_agentPersona = EXAMPLE_PROVIDER,
               response_timestamp = Some now\<rparr>],
          [(explainerPrompt, history), (examplePrompt, history)]))
    \<and> (reached \<and> svc 0 explainerPrompt history = Inl x1 \<and>
         svc 1 examplePrompt history = Inl x2 \<longrightarrow>
       execute svc rt now request =
         (Inl (GeminiApiError
                 ''Gemini API Error: Failed to generate responses from all agents'' None),
          [(explainerPrompt, history), (examplePrompt, history)]))
    \<and> (reached \<and> svc 0 explainerPrompt history = Inr t1 \<and>
         svc 1 examplePrompt history = Inl x2 \<longrightarrow>
       execute svc rt now request =
         (Inr [\<lparr>response_message = t1, response_agentPersona = EXPLAINER,
               response_timestamp = Some now\<rparr>],
          [(explainerPrompt, history), (examplePrompt, history)]))
    \<and> fst (execute svc rt now request) \<noteq> Inr []"
proof -
  define um where "um = \<lparr>role = USER, content = trim (request_message request),
      timestamp = Some now, agentPersona = None\<rparr>"
  define p1 where "p1 = agentPrompt explainerSystemPrompt um"
  define p2 where "p2 = agentPrompt exampleSystemPrompt um"
  define reached where "reached \<longleftrightarrow> validateRequest request = Inr () \<and>
      createConversation rt now request = Inr c \<and> length (messages c) < 100"
  have A: "execute svc rt now request =
      (Inr [\<lparr>response_message = t2, response_agentPersona = EXAMPLE_PROVIDER,
            response_timestamp = Some now\<rparr>],
       [(p1, getGeminiFormat c), (p2, getGeminiFormat c)])"
    if "reached \<and> svc 0 p1 (getGeminiFormat c) = Inl x1 \<and> svc 1 p2 (getGeminiFormat c) = Inr t2"
  proof -
    from that have "execute_try svc rt now request =
        (Inr [agentSuccess now EXAMPLE_PROVIDER t2],
         [(p1, getGeminiFormat c), (p2, getGeminiFormat c)])"
      using execute_try_both_asked [of request rt now c svc]
      by (simp add: reached_def Let_def um_def p1_def p2_def)
    then show ?thesis using execute_of_try(1) by (simp add: agentSuccess_def)
  qed
  have B: "execute svc rt now request =
      (Inl (GeminiApiError ''Gemini API Error: Failed to generate responses from all agents''
              None),
       [(p1, getGeminiFormat c), (p2, getGeminiFormat c)])"
    if "reached \<and> svc 0 p1 (getGeminiFormat c) = Inl x1 \<and> svc 1 p2 (getGeminiFormat c) = Inl x2"
  proof -
    from that have "execute_try svc rt now request =
        (Inl (GeminiApiError ''Gemini API Error: Failed to generate responses from all agents''
                None),
         [(p1, getGeminiFormat c), (p2, getGeminiFormat c)])"
      using execute_try_both_asked [of request rt now c svc]
      by (simp add: reached_def Let_def um_def p1_def p2_def new_GeminiApiError_def)
    then show ?thesis by (rule execute_of_try(2))
  qed
  have C: "execute svc rt now request =
      (Inr [\<lparr>response_message = t1, response_agentPersona = EXPLAINER,
            response_timestamp = Some now\<rparr>],
       [(p1, getGeminiFormat c), (p2, getGeminiFormat c)])"
    if "reached \<and> svc 0 p1 (getGeminiFormat c) = Inr t1 \<and> svc 1 p2 (getGeminiFormat c) = Inl x2"
  proof -
    from that have "execute_try svc rt now request =
        (Inr [agentSuccess now EXPLAINER t1],
         [(p1, getGeminiFormat c), (p2, getGeminiFormat c)])"
      using execute_try_both_asked [of request rt now c svc]
      by (simp add: reached_def Let_def um_def p1_def p2_def)
    then show ?thesis using execute_of_try(1) by (simp add: agentSuccess_def)
  qed
  have D: "fst (execute svc rt now request) \<noteq> Inr []" by (rule execute_never_empty)
  from A B C D show ?thesis
    unfolding Let_def um_def p1_def p2_def reached_def by blast
qed

theorem execute_partial_failure_witness:
  "execute explainer_down example_runtime 0 example_request =
     (Inr [\<lparr>response_message = ''An example'', response_agentPersona = EXAMPLE_PROVIDER,
           response_timestamp = Some 0\<rparr>],
      [(agentPrompt explainerSystemPrompt example_user_message, []),
       (agentPrompt exampleSystemPrompt example_user_message, [])])
   \<and> execute all_down example_runtime 0 example_request =
     (Inl (GeminiApiError ''Gemini API Error: Failed to generate responses from all agents'' None),
      [(agentPrompt explainerSystemPrompt example_user_message, []),
       (agentPrompt exampleSystemPrompt example_user_message, [])])
   \<and> execute example_down example_runtime 0 example_request =
     (Inr [\<lparr>response_message = ''An explanation'', response_agentPersona = EXPLAINER,
           response_timestamp = Some 0\<rparr>],
      [(agentPrompt explainerSystemPrompt example_user_message, []),
       (agentPrompt exampleSystemPrompt example_user_message, [])])
   \<and> execute explainer_down example_runtime 0 history_request =
     (Inr [\<lparr>response_message = ''An example'', response_agentPersona = EXAMPLE_PROVIDER,
           response_timestamp = Some 0\<rparr>],
      [(agentPrompt explainerSystemPrompt example_user_message,
        [\<lparr>gemini_role = ''user'', parts = [''What is a loop?'']\<rparr>,
         \<lparr>gemini_role = ''model'', parts = [''A loop repeats.'']\<rparr>]),
       (agentPrompt exampleSystemPrompt example_user_message,
        [\<lparr>gemini_role = ''user'', parts = [''What is a loop?'']\<rparr>,
         \<lparr>gemini_role = ''model'', parts = [''A loop repeats.'']\<rparr>])])"
proof -
  have t: "trim (request_message example_request) = ''What is recursion?''"
      "trim (request_message history_request) = ''What is recursion?''"
    by (simp_all add: history_request_def example_request_def trim_def isWhiteSpace_def)
  have v: "validateRequest example_request = Inr ()" "validateRequest history_request = Inr ()"
    by (simp_all add: validateRequest_ok t)
  have c0: "createConversation example_runtime 0 example_request =
      Inr (new_Conversation 0 [] None None None)"
    by (simp add: createConversation_def example_request_def)
  have c1: "createConversation example_runtime 0 history_request = Inr history_conversation"
    by (simp add: createConversation_def history_request_def example_request_def fromJSON_def
        new_Message_def validateContent_def trim_def isWhiteSpace_def history_conversation_def)
  have g0: "getGeminiFormat (new_Conversation 0 [] None None None) = []"
    by (simp add: getGeminiFormat_def new_Conversation_def)
  have g1: "getGeminiFormat history_conversation =
      [\<lparr>gemini_role = ''user'', parts = [''What is a loop?'']\<rparr>,
       \<lparr>gemini_role = ''model'', parts = [''A loop repeats.'']\<rparr>]"
    by (simp add: getGeminiFormat_def history_conversation_def new_Conversation_def)
  have l: "length (messages (new_Conversation 0 [] None None None)) < 100"
      "length (messages history_conversation) < 100"
    by (simp_all add: new_Conversation_def history_conversation_def)
  note inst = execute_partial_failure [where rt = example_runtime and now = 0
      and ?x1.0 = "ThrownError (Error ''fetch failed'')"
      and ?t1.0 = "''An explanation''" and ?t2.0 = "''An example''"]
  show ?thesis
    using inst [where svc = explainer_down and request = example_request
        and c = "new_Conversation 0 [] None None None"]
      inst [where svc = all_down and request = example_request
        and c = "new_Conversation 0 [] None None None"
        and ?x2.0 = "ThrownError (Error ''fetch failed'')"]
      inst [where svc = example_down and request = example_request
        and c = "new_Conversation 0 [] None None None" and ?x2.0 = "ThrownValue ''timeout''"]
      inst [where svc = explainer_down and request = history_request
        and c = history_conversation]
    by (simp add: Let_def t v c0 c1 g0 g1 l explainer_down_def all_down_def example_down_def
        example_user_message_def)
qed

section \<open>C3: validation of the message length\<close>

text \<open>
  C3. Let \<open>L\<close> be the length of the trimmed message of a chat request. When
  \<open>1 \<le> L \<le> 5000\<close> the request passes validation, \<^verbatim>\<open>execute\<close> never fails with a
  ValidationError, and without history both persona calls are made. When \<open>L = 0\<close> or
  \<open>L > 5000\<close>, \<^verbatim>\<open>execute\<close> fails with a ValidationError and the log of service calls is
  empty.
\<close>

theorem execute_validates_length:
  "(1 \<le> length (trim (request_message request)) \<and>
      length (trim (request_message request)) \<le> 5000 \<longrightarrow>
      validateRequest request = Inr () \<and>
      (\<forall>m. fst (execute svc rt now request) \<noteq> Inl (ValidationError m)) \<and>
      (conversationHistory request = None \<longrightarrow> length (snd (execute svc rt now request)) = 2))
   \<and> (length (trim (request_message request)) = 0 \<or>
      5000 < length (trim (request_message request)) \<longrightarrow>
      (\<exists>m. execute svc rt now request = (Inl (ValidationError m), [])))"
proof (intro conjI impI allI)
  assume a: "1 \<le> length (trim (request_message request)) \<and>
      length (trim (request_message request)) \<le> 5000"
  then have "trim (request_message request) \<noteq> []" by auto
  with a show v: "validateRequest request = Inr ()" by (simp add: validateRequest_ok)
  show "fst (execute svc rt now request) \<noteq> Inl (ValidationError m)" for m
    using v by (rule execute_valid_no_validation_error)
  show "length (snd (execute svc rt now request)) = 2" if "conversationHistory request = None"
    using v that by (rule execute_valid_fresh_calls)
next
  assume "length (trim (request_message request)) = 0 \<or>
      5000 < length (trim (request_message request))"
  then have "validateRequest request \<noteq> Inr ()" by (auto simp: validateRequest_ok)
  then show "\<exists>m. execute svc rt now request = (Inl (ValidationError m), [])"
    by (rule execute_invalid)
qed

theorem execute_validates_length_witness:
  "validateRequest example_request = Inr ()
   \<and> length (snd (execute all_up example_runtime 0 example_request)) = 2
   \<and> (\<exists>m. execute all_up example_runtime 0 blank_request = (Inl (ValidationError m), []))
   \<and> (\<exists>m. execute all_up example_runtime 0 long_request = (Inl (ValidationError m), []))"
proof -
  have t: "trim (request_message example_request) = ''What is recursion?''"
    by (simp add: example_request_def trim_def isWhiteSpace_def)
  have b: "trim (request_message blank_request) = []"
    by (simp add: blank_request_def trim_def isWhiteSpace_def)
  have l: "trim (request_message long_request) = replicate 5001 (CHR ''a'')"
    by (simp add: long_request_def trim_replicate isWhiteSpace_def)
  show ?thesis
    using execute_validates_length [of example_request all_up example_runtime 0]
      execute_validates_length [of blank_request all_up example_runtime 0]
      execute_validates_length [of long_request all_up example_runtime 0]
    by (simp add: t b l) (simp add: example_request_def)
qed

section \<open>C4: the parser of the combined response\<close>

text \<open>
  C4 (amended). The explanation marker of the code is "Explainer: ": on
  "Explainer: X", a line feed, "Example: Y" the parser returns X and Y, and on
  "Example: Y only" it
  returns the fallback explanation and "Y only". When the explainer marker or a later
  line starting with "Example:" is absent, the explanation is the fallback; when the
  marker "Example: " is absent, the example is the fallback; a group that is the empty
  string gives the fallback too. A group that is non-empty after trimming is returned
  trimmed. The parser is a total function into pairs: it always returns both fields.
\<close>

theorem parseCombinedResponse_fields:
  "parseCombinedResponse (''Explainer: X'' @ [CHR 0x0A] @ ''Example: Y'') = (''X'', ''Y'')
   \<and> parseCombinedResponse ''Example: Y only'' = (explainerFallback, ''Y only'')
   \<and> (\<not> str_includes raw ''Explainer: '' \<or> \<not> str_includes raw (CHR 0x0A # ''Example:'') \<longrightarrow>
        fst (parseCombinedResponse raw) = explainerFallback)
   \<and> (\<not> str_includes raw ''Example: '' \<longrightarrow> snd (parseCombinedResponse raw) = exampleFallback)
   \<and> (explainerMatch raw = Some [] \<longrightarrow> fst (parseCombinedResponse raw) = explainerFallback)
   \<and> (exampleMatch raw = Some [] \<longrightarrow> snd (parseCombinedResponse raw) = exampleFallback)
   \<and> (explainerMatch raw = Some g \<and> trim g \<noteq> [] \<longrightarrow> fst (parseCombinedResponse raw) = trim g)
   \<and> (exampleMatch raw = Some g' \<and> trim g' \<noteq> [] \<longrightarrow> snd (parseCombinedResponse raw) = trim g')"
proof (intro conjI impI)
  show "parseCombinedResponse (''Explainer: X'' @ [CHR 0x0A] @ ''Example: Y'') = (''X'', ''Y'')"
    by (simp add: parseCombinedResponse_def explainerMatch_def exampleMatch_def
        explainerFallback_def exampleFallback_def trim_def isWhiteSpace_def)
  show "parseCombinedResponse ''Example: Y only'' = (explainerFallback, ''Y only'')"
    by (simp add: parseCombinedResponse_def explainerMatch_def exampleMatch_def
        explainerFallback_def exampleFallback_def trim_def isWhiteSpace_def)
next
  assume "\<not> str_includes raw ''Explainer: '' \<or> \<not> str_includes raw (CHR 0x0A # ''Example:'')"
  then have "explainerMatch raw = None"
    using explainerMatch_no_marker explainerMatch_no_example_line by blast
  then show "fst (parseCombinedResponse raw) = explainerFallback"
    by (simp add: parseCombinedResponse_def)
next
  assume "\<not> str_includes raw ''Example: ''"
  then have "exampleMatch raw = None" by (rule exampleMatch_no_marker)
  then show "snd (parseCombinedResponse raw) = exampleFallback"
    by (simp add: parseCombinedResponse_def)
next
  assume "explainerMatch raw = Some []"
  then show "fst (parseCombinedResponse raw) = explainerFallback"
    by (simp add: parseCombinedResponse_def)
next
  assume "exampleMatch raw = Some []"
  then show "snd (parseCombinedResponse raw) = exampleFallback"
    by (simp add: parseCombinedResponse_def)
next
  assume "explainerMatch raw = Some g \<and> trim g \<noteq> []"
  moreover from this have "g \<noteq> []" by (auto simp: trim_def)
  ultimately show "fst (parseCombinedResponse raw) = trim g"
    by (simp add: parseCombinedResponse_def)
next
  assume "exampleMatch raw = Some g' \<and> trim g' \<noteq> []"
  moreover from this have "g' \<noteq> []" by (auto simp: trim_def)
  ultimately show "snd (parseCombinedResponse raw) = trim g'"
    by (simp add: parseCombinedResponse_def)
qed

theorem parseCombinedResponse_fields_witness:
  "fst (parseCombinedResponse ''Example: Y only'') = explainerFallback
   \<and> snd (parseCombinedResponse ''Explainer: X'') = exampleFallback
   \<and> fst (parseCombinedResponse (''Explainer: '' @ [CHR 0x0A] @ ''Example: Y'')) = explainerFallback
   \<and> snd (parseCombinedResponse ''Explainer: X Example: '') = exampleFallback
   \<and> fst (parseCombinedResponse (''Explainer:   X  '' @ [CHR 0x0A] @ ''Example: Y'')) = ''X''
   \<and> snd (parseCombinedResponse ''Example:  Y only '') = ''Y only''"
proof (intro conjI)
  show "fst (parseCombinedResponse ''Example: Y only'') = explainerFallback"
    using parseCombinedResponse_fields [of "''Example: Y only''"]
    by (simp add: str_includes_def sublist_code)
  show "snd (parseCombinedResponse ''Explainer: X'') = exampleFallback"
    using parseCombinedResponse_fields [of "''Explainer: X''"]
    by (simp add: str_includes_def sublist_code)
  show "fst (parseCombinedResponse (''Explainer: '' @ [CHR 0x0A] @ ''Example: Y'')) = explainerFallback"
    using parseCombinedResponse_fields [of "''Explainer: '' @ [CHR 0x0A] @ ''Example: Y''"]
    by (simp add: explainerMatch_def)
  show "snd (parseCombinedResponse ''Explainer: X Example: '') = exampleFallback"
    using parseCombinedResponse_fields [of "''Explainer: X Example: ''"]
    by (simp add: exampleMatch_def)
  show "fst (parseCombinedResponse (''Explainer:   X  '' @ [CHR 0x0A] @ ''Example: Y'')) = ''X''"
    using parseCombinedResponse_fields [of "''Explainer:   X  '' @ [CHR 0x0A] @ ''Example: Y''" "''  X  ''"]
    by (simp add: explainerMatch_def trim_def isWhiteSpace_def)
  show "snd (parseCombinedResponse ''Example:  Y only '') = ''Y only''"
    using parseCombinedResponse_fields [of "''Example:  Y only ''" _ "'' Y only ''"]
    by (simp add: exampleMatch_def trim_def isWhiteSpace_def)
qed

text \<open>
  As stated the property fails twice. With the marker "Explanation: " the explanation
  is the fallback, not X. A group of blanks is truthy, so it replaces the fallback and
  is trimmed to the empty string.
\<close>

theorem parseCombinedResponse_wrong_marker_and_blank_group:
  "parseCombinedResponse (''Explanation: X'' @ [CHR 0x0A] @ ''Example: Y'') =
     (explainerFallback, ''Y'')
   \<and> explainerFallback \<noteq> ''X''
   \<and> exampleMatch ''Example:    '' = Some ''   ''
   \<and> trim ''   '' = []
   \<and> snd (parseCombinedResponse ''Example:    '') = []
   \<and> exampleFallback \<noteq> []"
  by (simp add: parseCombinedResponse_def explainerMatch_def exampleMatch_def
        explainerFallback_def exampleFallback_def trim_def isWhiteSpace_def)

section \<open>C5: the order of the responses\<close>



section \<open>C6: the length bound of the Message constructor\<close>

text \<open>
  C6. The constructor trims the content and rejects empty trimmed content, but its
  length bound is the constant 10000, not 5000: a content of 5001 letters is accepted
  and stored with all 5001 of them.
\<close>

theorem Message_accepts_5001_chars:
  "new_Message USER (replicate 5001 (CHR ''a'')) (Some 0) None =
     Inr \<lparr>role = USER, content = replicate 5001 (CHR ''a''), timestamp = Some 0,
          agentPersona = None\<rparr>
   \<and> length (replicate 5001 (CHR ''a'')) = 5001"
  by (simp add: new_Message_ok trim_replicate isWhiteSpace_def)

section \<open>C7: the bound of Conversation.addMessage\<close>

text \<open>
  C7 (amended). On a conversation holding 100 messages or more \<^verbatim>\<open>addMessage\<close> throws
  and leaves the conversation as it was; below 100 it appends the message at the end.
  So \<^verbatim>\<open>addMessage\<close> never takes a conversation of at most 100 messages beyond 100.
\<close>

theorem addMessage_bounded:
  "(100 \<le> length (messages c) \<longrightarrow>
      addMessage now m c =
        (Inl (Error ''Conversation history limit of 100 messages reached''), c))
   \<and> (length (messages c) < 100 \<longrightarrow>
      addMessage now m c = (Inr (), c\<lparr>messages := messages c @ [m], updatedAt := Some now\<rparr>))
   \<and> (length (messages c) \<le> 100 \<longrightarrow> length (messages (snd (addMessage now m c))) \<le> 100)"
proof (cases "length (messages c) < 100")
  case True
  then show ?thesis by (simp add: addMessage_room)
next
  case False
  then show ?thesis by (simp add: addMessage_full)
qed

theorem addMessage_bounded_witness:
  "addMessage 5 example_message full_conversation =
     (Inl (Error ''Conversation history limit of 100 messages reached''), full_conversation)
   \<and> messages (snd (addMessage 5 example_message example_conversation)) =
     [example_message, example_message]
   \<and> length (messages (snd (addMessage 5 example_message full_conversation))) \<le> 100"
proof -
  have f: "length (messages full_conversation) = 100"
    by (simp add: full_conversation_def new_Conversation_def)
  have e: "messages example_conversation = [example_message]"
    by (simp add: example_conversation_def new_Conversation_def)
  show ?thesis
    using addMessage_bounded [of full_conversation 5 example_message]
      addMessage_bounded [of example_conversation 5 example_message]
    by (simp add: f e)
qed

text \<open>
  The constructor copies any array of initial messages without a check, so a
  conversation can exceed the bound from the start.
\<close>

theorem Conversation_constructor_unbounded:
  "length (messages (new_Conversation 0 (replicate 101 example_message) None None None)) = 101"
  by (simp add: new_Conversation_def)

section \<open>C8: the JSON round trip of a Message\<close>

text \<open>
  C8 (amended). Let the constructor build a Message \<open>t\<close> with a valid Date, and let the
  runtime print this instant as a non-empty string that it parses back to the same
  instant. Then \<^verbatim>\<open>toJSON\<close> succeeds, the persona tag of the JSON object is the one of
  \<open>t\<close>, absent exactly when it is absent in \<open>t\<close>, and \<^verbatim>\<open>fromJSON\<close> of the object
  is \<open>t\<close> again: same role, content, instant and persona.
\<close>

theorem Message_json_roundtrip:
  assumes "new_Message r c (Some ms) p = Inr t"
    and "toISOString rt ms \<noteq> []"
    and "parseDate rt (toISOString rt ms) = Some ms"
  shows "\<exists>j. toJSON rt t = Inr j \<and> json_agentPersona j = p \<and> fromJSON rt now j = Inr t"
proof -
  from assms(1) have t: "t = \<lparr>role = r, content = trim c, timestamp = Some ms, agentPersona = p\<rparr>"
    and ok: "trim c \<noteq> []" "length (trim c) \<le> 10000"
    by (simp_all add: new_Message_ok)
  define j where "j = \<lparr>json_role = r, json_content = trim c,
      json_timestamp = Some (TimestampString (toISOString rt ms)), json_agentPersona = p\<rparr>"
  have "toJSON rt t = Inr j" by (simp add: toJSON_def t j_def)
  moreover have "json_agentPersona j = p" by (simp add: j_def)
  moreover have "fromJSON rt now j = Inr t"
    using assms(2,3) ok by (simp add: fromJSON_def j_def new_Message_ok trim_idem t)
  ultimately show ?thesis by blast
qed

theorem Message_json_roundtrip_witness:
  "\<exists>j. toJSON example_runtime example_message = Inr j \<and> json_agentPersona j = Some EXPLAINER
      \<and> fromJSON example_runtime 7 j = Inr example_message"
proof -
  have "new_Message ASSISTANT ''Test message'' (Some 1704067200000) (Some EXPLAINER) =
      Inr example_message"
    by (simp add: new_Message_def validateContent_def trim_def isWhiteSpace_def
        example_message_def)
  then show ?thesis
    using Message_json_roundtrip [of ASSISTANT "''Test message''" 1704067200000 "Some EXPLAINER"
        example_message example_runtime 7]
    by (simp add: example_runtime_def)
qed

text \<open>
  A Message may hold an Invalid Date, for instance one restored from a timestamp string
  that does not parse; \<^verbatim>\<open>toJSON\<close> of such a Message throws a RangeError.
\<close>

theorem Message_invalid_date_no_json:
  "fromJSON example_runtime 0
     \<lparr>json_role = USER, json_content = ''hi'',
      json_timestamp = Some (TimestampString ''yesterday''), json_agentPersona = None\<rparr> =
     Inr \<lparr>role = USER, content = ''hi'', timestamp = None, agentPersona = None\<rparr>
   \<and> new_Message USER ''hi'' None None =
     Inr \<lparr>role = USER, content = ''hi'', timestamp = None, agentPersona = None\<rparr>
   \<and> toJSON example_runtime \<lparr>role = USER, content = ''hi'', timestamp = None, agentPersona = None\<rparr> =
     Inl (RangeError ''Invalid time value'')"
  by (simp add: fromJSON_def new_Message_def validateContent_def trim_def isWhiteSpace_def
      toJSON_def example_runtime_def)

section \<open>C9: Conversation.getRecentMessages\<close>

text \<open>
  C9. For a positive count the result is the sequence of the last \<open>count\<close> messages
  (lemma \<open>getRecentMessages_pos\<close>). For the count 0 the start \<^verbatim>\<open>-0\<close> of the slice is 0,
  and the result is the whole conversation instead of the empty sequence.
\<close>

theorem getRecentMessages_zero_returns_all:
  "getRecentMessages example_conversation 0 = [example_message]
   \<and> messages example_conversation = [example_message]"
  by (simp add: getRecentMessages_def slice_from_def example_conversation_def new_Conversation_def)

section \<open>C10: the error kinds of ChatUseCase.execute\<close>

text \<open>
  C10. Every error of \<^verbatim>\<open>execute\<close> is a ValidationError or a GeminiApiError. An error
  thrown while the history is restored, and the error of a conversation that is full,
  are plain Errors inside; \<^verbatim>\<open>execute\<close> throws them wrapped as the cause of the
  GeminiApiError "Failed to process chat request", before any call of the service.
\<close>

theorem execute_error_kinds:
  "(fst (execute svc rt now request) = Inl e \<longrightarrow> isValidationError e \<or> isGeminiApiError e)
   \<and> (validateRequest request = Inr () \<and> createConversation rt now request = Inl e' \<longrightarrow>
      execute svc rt now request =
        (Inl (GeminiApiError ''Gemini API Error: Failed to process chat request'' (Some e')), []))
   \<and> (validateRequest request = Inr () \<and> createConversation rt now request = Inr c \<and>
      100 \<le> length (messages c) \<longrightarrow>
      execute svc rt now request =
        (Inl (GeminiApiError ''Gemini API Error: Failed to process chat request''
               (Some (Error ''Conversation history limit of 100 messages reached''))), []))"
proof (intro conjI impI)
  assume "fst (execute svc rt now request) = Inl e"
  then show "isValidationError e \<or> isGeminiApiError e"
    by (auto simp: execute_def new_GeminiApiError_def split: prod.splits sum.splits if_splits)
next
  assume a: "validateRequest request = Inr () \<and> createConversation rt now request = Inl e'"
  then obtain m where "e' = Error m" using createConversation_error by blast
  moreover from a have "execute_try svc rt now request = (Inl e', [])"
    by (simp add: execute_try_def)
  ultimately show "execute svc rt now request =
        (Inl (GeminiApiError ''Gemini API Error: Failed to process chat request'' (Some e')), [])"
    using execute_wraps [of svc rt now request e' "[]"] by simp
next
  assume a: "validateRequest request = Inr () \<and> createConversation rt now request = Inr c \<and>
      100 \<le> length (messages c)"
  then have "trim (request_message request) \<noteq> []"
      "length (trim (request_message request)) \<le> 10000"
    by (simp_all add: validateRequest_ok)
  then obtain um where "new_Message USER (request_message request) (Some now) None = Inr um"
    by (simp add: new_Message_ok)
  with a have "execute_try svc rt now request =
      (Inl (Error ''Conversation history limit of 100 messages reached''), [])"
    by (simp add: execute_try_def addMessage_full)
  then show "execute svc rt now request =
        (Inl (GeminiApiError ''Gemini API Error: Failed to process chat request''
               (Some (Error ''Conversation history limit of 100 messages reached''))), [])"
    using execute_wraps by simp
qed

theorem execute_error_kinds_witness:
  "execute all_up example_runtime 0 bad_history_request =
     (Inl (GeminiApiError ''Gemini API Error: Failed to process chat request''
            (Some (Error ''Message content cannot be empty''))), [])
   \<and> isGeminiApiError (GeminiApiError ''Gemini API Error: Failed to process chat request''
            (Some (Error ''Message content cannot be empty'')))
   \<and> execute all_up example_runtime 0 full_history_request =
     (Inl (GeminiApiError ''Gemini API Error: Failed to process chat request''
            (Some (Error ''Conversation history limit of 100 messages reached''))), [])"
proof -
  have v: "validateRequest bad_history_request = Inr ()"
    by (simp add: bad_history_request_def example_request_def validateRequest_def trim_def
        isWhiteSpace_def)
  have c: "createConversation example_runtime 0 bad_history_request =
      Inl (Error ''Message content cannot be empty'')"
    by (simp add: bad_history_request_def example_request_def createConversation_def
        fromJSON_def new_Message_def validateContent_def trim_def isWhiteSpace_def)
  have v': "validateRequest full_history_request = Inr ()"
    by (simp add: full_history_request_def example_request_def validateRequest_def trim_def
        isWhiteSpace_def)
  define hello where "hello = \<lparr>role = USER, content = ''hello'', timestamp = Some 0,
      agentPersona = None\<rparr>"
  have "fromJSON example_runtime 0 \<lparr>json_role = USER, json_content = ''hello'',
      json_timestamp = None, json_agentPersona = None\<rparr> = Inr hello"
    by (simp add: fromJSON_def new_Message_def validateContent_def trim_def isWhiteSpace_def
        hello_def)
  then have c': "createConversation example_runtime 0 full_history_request =
      Inr (new_Conversation 0 (replicate 100 hello) None None None)"
    by (simp add: full_history_request_def example_request_def createConversation_def
        mapFromJSON_replicate)
  have l: "100 \<le> length (messages (new_Conversation 0 (replicate 100 hello) None None None))"
    by (simp add: new_Conversation_def)
  show ?thesis
    using execute_error_kinds [of all_up example_runtime 0 bad_history_request
        "GeminiApiError ''Gemini API Error: Failed to process chat request''
            (Some (Error ''Message content cannot be empty''))"
        "Error ''Message content cannot be empty''"]
      execute_error_kinds [where svc = all_up and rt = example_runtime and now = 0
        and request = full_history_request
        and c = "new_Conversation 0 (replicate 100 hello) None None None"]
      v c v' c' l
    by simp
qed

end
